theory Spec2Isabelle
  imports Main "HOL-Library.Sublist" "HOL-Library.AList"
begin

section \<open>Python values\<close>

text \<open>
  A Python \<open>str\<close> is a sequence of Unicode code points, so it is modelled as a list of
  natural numbers (one per code point) and not as a list of 8-bit characters.  An ASCII
  literal is written \<open>S ''...''\<close>.
\<close>

type_synonym pystr = "nat list"

abbreviation S :: "string \<Rightarrow> pystr" where
  "S s \<equiv> map of_char s"

text \<open>
  The values that flow through \<open>config.py\<close> and \<open>prompt.py\<close>: \<open>None\<close>, booleans,
  integers, strings, lists and string-keyed dictionaries (what a JSON decoder produces,
  floats apart).  A dictionary keeps its insertion order, so it is an association list;
  \<open>map_of\<close> is the lookup.
\<close>

datatype pyval =
    PNone
  | PBool bool
  | PInt int
  | PStr pystr
  | PList "pyval list"
  | PDict "(pystr \<times> pyval) list"

type_synonym pydict = "(pystr \<times> pyval) list"

datatype pyerr = AttributeError | TypeError | KeyError

definition bind_err :: "pyerr + 'a \<Rightarrow> ('a \<Rightarrow> pyerr + 'b) \<Rightarrow> pyerr + 'b" where
  "bind_err m f = (case m of Inl e \<Rightarrow> Inl e | Inr x \<Rightarrow> f x)"

text \<open>Truth value testing: \<open>None\<close>, \<open>False\<close>, \<open>0\<close> and empty containers are false.\<close>

fun truthy :: "pyval \<Rightarrow> bool" where
  "truthy PNone = False"
| "truthy (PBool b) = b"
| "truthy (PInt i) = (i \<noteq> 0)"
| "truthy (PStr s) = (s \<noteq> [])"
| "truthy (PList xs) = (xs \<noteq> [])"
| "truthy (PDict d) = (d \<noteq> [])"

text \<open>\<open>a or b\<close>\<close>

definition py_or :: "pyval \<Rightarrow> pyval \<Rightarrow> pyval" where
  "py_or a b = (if truthy a then a else b)"

text \<open>\<open>d.get(k, default)\<close> on a dictionary; \<open>d.get(k)\<close> is \<open>dict_get d k PNone\<close>.\<close>

definition dict_get :: "pydict \<Rightarrow> pystr \<Rightarrow> pyval \<Rightarrow> pyval" where
  "dict_get d k dflt = (case map_of d k of Some v \<Rightarrow> v | None \<Rightarrow> dflt)"

text \<open>
  \<open>x.get(k, default)\<close> on an arbitrary value: only a dictionary has the attribute
  \<open>get\<close>; on anything else the attribute lookup raises \<open>AttributeError\<close>.
\<close>

fun py_get :: "pyval \<Rightarrow> pystr \<Rightarrow> pyval \<Rightarrow> pyerr + pyval" where
  "py_get (PDict d) k dflt = Inr (dict_get d k dflt)"
| "py_get _ k dflt = Inl AttributeError"


section \<open>The entity set of \<open>config.py\<close>\<close>

text \<open>
  Python attributes are untyped, so every field holds a \<open>pyval\<close>.  The field \<open>values\<close> of
  \<open>CompanyDetails\<close> is called \<open>company_values\<close> here and the field \<open>notes\<close> of \<open>UserContext\<close> is called
  \<open>user_notes\<close> (both names are reserved words); their dictionary keys are unchanged.
\<close>

record AgentPersonality =
  traits :: pyval
  communication_style :: pyval
  tone :: pyval
  expertise_level :: pyval
  response_speed :: pyval

record CompanyDetails =
  name :: pyval
  description :: pyval
  specialties :: pyval
  location :: pyval
  years_in_business :: pyval
  website :: pyval
  phone :: pyval
  email :: pyval
  mission_statement :: pyval
  company_values :: pyval

record UserContext =
  name :: pyval
  email :: pyval
  phone :: pyval
  preferences :: pyval
  previous_interactions :: pyval
  user_notes :: pyval
  demographics :: pyval
  pain_points :: pyval
  goals :: pyval
  budget :: pyval
  timeline :: pyval

record CallContext =
  purpose :: pyval
  priority :: pyval
  expected_duration :: pyval
  follow_up_required :: pyval
  success_metrics :: pyval
  call_script :: pyval
  key_points :: pyval

record AgentConfig =
  agent_name :: pyval
  company_details :: CompanyDetails
  agent_personality :: AgentPersonality
  call_context :: CallContext
  user_context :: UserContext
  industry :: pyval
  custom_instructions :: pyval
  language :: pyval
  timezone :: pyval
  compliance_requirements :: pyval


subsection \<open>AgentPersonality\<close>

text \<open>\<open>__init__\<close>: an omitted optional argument is \<open>None\<close>.\<close>

definition AgentPersonality_init ::
  "pyval \<Rightarrow> pyval \<Rightarrow> pyval \<Rightarrow> pyval \<Rightarrow> pyval \<Rightarrow> AgentPersonality" where
  "AgentPersonality_init traits' communication_style' tone' expertise_level' response_speed' =
     \<lparr> traits = traits',
       communication_style = communication_style',
       tone = py_or tone' (PStr (S ''professional'')),
       expertise_level = py_or expertise_level' (PStr (S ''expert'')),
       response_speed = py_or response_speed' (PStr (S ''conversational'')) \<rparr>"

definition AgentPersonality_to_dict :: "AgentPersonality \<Rightarrow> pyval" where
  "AgentPersonality_to_dict p = PDict
     [ (S ''traits'', traits p),
       (S ''communication_style'', communication_style p),
       (S ''tone'', tone p),
       (S ''expertise_level'', expertise_level p),
       (S ''response_speed'', response_speed p) ]"

fun AgentPersonality_from_dict :: "pyval \<Rightarrow> pyerr + AgentPersonality" where
  "AgentPersonality_from_dict (PDict d) = Inr (AgentPersonality_init
     (dict_get d (S ''traits'') (PList []))
     (dict_get d (S ''communication_style'') (PStr (S ''professional'')))
     (dict_get d (S ''tone'') PNone)
     (dict_get d (S ''expertise_level'') PNone)
     (dict_get d (S ''response_speed'') PNone))"
| "AgentPersonality_from_dict _ = Inl AttributeError"


subsection \<open>CompanyDetails\<close>

definition CompanyDetails_init ::
  "pyval \<Rightarrow> pyval \<Rightarrow> pyval \<Rightarrow> pyval \<Rightarrow> pyval \<Rightarrow> pyval \<Rightarrow> pyval \<Rightarrow> pyval \<Rightarrow> pyval \<Rightarrow> pyval
   \<Rightarrow> CompanyDetails" where
  "CompanyDetails_init name' description' specialties' location' years_in_business'
       website' phone' email' mission_statement' values' =
     \<lparr> CompanyDetails.name = name',
       description = description',
       specialties = py_or specialties' (PList []),
       location = location',
       years_in_business = years_in_business',
       website = website',
       CompanyDetails.phone = phone',
       CompanyDetails.email = email',
       mission_statement = mission_statement',
       company_values = py_or values' (PList []) \<rparr>"

definition CompanyDetails_to_dict :: "CompanyDetails \<Rightarrow> pyval" where
  "CompanyDetails_to_dict c = PDict
     [ (S ''name'', CompanyDetails.name c),
       (S ''description'', description c),
       (S ''specialties'', specialties c),
       (S ''location'', location c),
       (S ''years_in_business'', years_in_business c),
       (S ''website'', website c),
       (S ''phone'', CompanyDetails.phone c),
       (S ''email'', CompanyDetails.email c),
       (S ''mission_statement'', mission_statement c),
       (S ''values'', company_values c) ]"

fun CompanyDetails_from_dict :: "pyval \<Rightarrow> pyerr + CompanyDetails" where
  "CompanyDetails_from_dict (PDict d) = Inr (CompanyDetails_init
     (dict_get d (S ''name'') (PStr []))
     (dict_get d (S ''description'') PNone)
     (dict_get d (S ''specialties'') PNone)
     (dict_get d (S ''location'') PNone)
     (dict_get d (S ''years_in_business'') PNone)
     (dict_get d (S ''website'') PNone)
     (dict_get d (S ''phone'') PNone)
     (dict_get d (S ''email'') PNone)
     (dict_get d (S ''mission_statement'') PNone)
     (dict_get d (S ''values'') PNone))"
| "CompanyDetails_from_dict _ = Inl AttributeError"


subsection \<open>UserContext\<close>

definition UserContext_init ::
  "pyval \<Rightarrow> pyval \<Rightarrow> pyval \<Rightarrow> pyval \<Rightarrow> pyval \<Rightarrow> pyval \<Rightarrow> pyval \<Rightarrow> pyval \<Rightarrow> pyval \<Rightarrow> pyval
   \<Rightarrow> pyval \<Rightarrow> UserContext" where
  "UserContext_init name' email' phone' preferences' previous_interactions' notes'
       demographics' pain_points' goals' budget' timeline' =
     \<lparr> UserContext.name = name',
       UserContext.email = email',
       UserContext.phone = phone',
       preferences = py_or preferences' (PDict []),
       previous_interactions = py_or previous_interactions' (PList []),
       user_notes = notes',
       demographics = py_or demographics' (PDict []),
       pain_points = py_or pain_points' (PList []),
       goals = py_or goals' (PList []),
       budget = budget',
       timeline = timeline' \<rparr>"

definition UserContext_to_dict :: "UserContext \<Rightarrow> pyval" where
  "UserContext_to_dict u = PDict
     [ (S ''name'', UserContext.name u),
       (S ''email'', UserContext.email u),
       (S ''phone'', UserContext.phone u),
       (S ''preferences'', preferences u),
       (S ''previous_interactions'', previous_interactions u),
       (S ''notes'', user_notes u),
       (S ''demographics'', demographics u),
       (S ''pain_points'', pain_points u),
       (S ''goals'', goals u),
       (S ''budget'', budget u),
       (S ''timeline'', timeline u) ]"

fun UserContext_from_dict :: "pyval \<Rightarrow> pyerr + UserContext" where
  "UserContext_from_dict (PDict d) = Inr (UserContext_init
     (dict_get d (S ''name'') PNone)
     (dict_get d (S ''email'') PNone)
     (dict_get d (S ''phone'') PNone)
     (dict_get d (S ''preferences'') PNone)
     (dict_get d (S ''previous_interactions'') PNone)
     (dict_get d (S ''notes'') PNone)
     (dict_get d (S ''demographics'') PNone)
     (dict_get d (S ''pain_points'') PNone)
     (dict_get d (S ''goals'') PNone)
     (dict_get d (S ''budget'') PNone)
     (dict_get d (S ''timeline'') PNone))"
| "UserContext_from_dict _ = Inl AttributeError"


subsection \<open>CallContext\<close>

definition CallContext_init ::
  "pyval \<Rightarrow> pyval \<Rightarrow> pyval \<Rightarrow> pyval \<Rightarrow> pyval \<Rightarrow> pyval \<Rightarrow> pyval \<Rightarrow> CallContext" where
  "CallContext_init purpose' priority' expected_duration' follow_up_required'
       success_metrics' call_script' key_points' =
     \<lparr> purpose = purpose',
       priority = py_or priority' (PStr (S ''normal'')),
       expected_duration = expected_duration',
       follow_up_required = py_or follow_up_required' (PBool False),
       success_metrics = py_or success_metrics' (PList []),
       call_script = call_script',
       key_points = py_or key_points' (PList []) \<rparr>"

definition CallContext_to_dict :: "CallContext \<Rightarrow> pyval" where
  "CallContext_to_dict c = PDict
     [ (S ''purpose'', purpose c),
       (S ''priority'', priority c),
       (S ''expected_duration'', expected_duration c),
       (S ''follow_up_required'', follow_up_required c),
       (S ''success_metrics'', success_metrics c),
       (S ''call_script'', call_script c),
       (S ''key_points'', key_points c) ]"

fun CallContext_from_dict :: "pyval \<Rightarrow> pyerr + CallContext" where
  "CallContext_from_dict (PDict d) = Inr (CallContext_init
     (dict_get d (S ''purpose'') (PStr []))
     (dict_get d (S ''priority'') PNone)
     (dict_get d (S ''expected_duration'') PNone)
     (dict_get d (S ''follow_up_required'') PNone)
     (dict_get d (S ''success_metrics'') PNone)
     (dict_get d (S ''call_script'') PNone)
     (dict_get d (S ''key_points'') PNone))"
| "CallContext_from_dict _ = Inl AttributeError"


section \<open>AgentConfig\<close>

text \<open>
  \<open>__init__\<close>: \<open>industry\<close> and \<open>language\<close> have string defaults that apply only when the
  argument is omitted (\<open>None\<close> here, of type \<open>option\<close>); the remaining optional
  arguments default to \<open>None\<close>.
\<close>

definition AgentConfig_init ::
  "pyval \<Rightarrow> CompanyDetails \<Rightarrow> AgentPersonality \<Rightarrow> CallContext \<Rightarrow> UserContext
   \<Rightarrow> pyval option \<Rightarrow> pyval \<Rightarrow> pyval option \<Rightarrow> pyval \<Rightarrow> pyval \<Rightarrow> AgentConfig" where
  "AgentConfig_init agent_name' company_details' agent_personality' call_context' user_context'
       industry' custom_instructions' language' timezone' compliance_requirements' =
     \<lparr> agent_name = agent_name',
       company_details = company_details',
       agent_personality = agent_personality',
       call_context = call_context',
       user_context = user_context',
       industry = (case industry' of None \<Rightarrow> PStr (S ''real estate'') | Some v \<Rightarrow> v),
       custom_instructions = custom_instructions',
       language = (case language' of None \<Rightarrow> PStr (S ''en'') | Some v \<Rightarrow> v),
       timezone = timezone',
       compliance_requirements = py_or compliance_requirements' (PList []) \<rparr>"

definition AgentConfig_to_dict :: "AgentConfig \<Rightarrow> pyval" where
  "AgentConfig_to_dict c = PDict
     [ (S ''agent_name'', agent_name c),
       (S ''company_details'', CompanyDetails_to_dict (company_details c)),
       (S ''agent_personality'', AgentPersonality_to_dict (agent_personality c)),
       (S ''call_context'', CallContext_to_dict (call_context c)),
       (S ''user_context'', UserContext_to_dict (user_context c)),
       (S ''industry'', industry c),
       (S ''custom_instructions'', custom_instructions c),
       (S ''language'', language c),
       (S ''timezone'', timezone c),
       (S ''compliance_requirements'', compliance_requirements c) ]"

text \<open>The arguments are evaluated left to right; the first nested \<open>from_dict\<close> that raises wins.\<close>

fun AgentConfig_from_dict :: "pyval \<Rightarrow> pyerr + AgentConfig" where
  "AgentConfig_from_dict (PDict d) =
     bind_err (CompanyDetails_from_dict (dict_get d (S ''company_details'') (PDict []))) (\<lambda>cd.
     bind_err (AgentPersonality_from_dict (dict_get d (S ''agent_personality'') (PDict []))) (\<lambda>ap.
     bind_err (CallContext_from_dict (dict_get d (S ''call_context'') (PDict []))) (\<lambda>cc.
     bind_err (UserContext_from_dict (dict_get d (S ''user_context'') (PDict []))) (\<lambda>uc.
     Inr (AgentConfig_init
       (dict_get d (S ''agent_name'') (PStr (S ''Professional Assistant'')))
       cd ap cc uc
       (Some (dict_get d (S ''industry'') (PStr (S ''real estate''))))
       (dict_get d (S ''custom_instructions'') PNone)
       (Some (dict_get d (S ''language'') (PStr (S ''en''))))
       (dict_get d (S ''timezone'') PNone)
       (dict_get d (S ''compliance_requirements'') PNone))))))"
| "AgentConfig_from_dict _ = Inl AttributeError"

text \<open>
  \<open>from_legacy_metadata\<close>: the four \<open>.get\<close> calls that bind the local variables come first,
  then the constructor arguments left to right.  A \<open>.get\<close> on a value that is not a
  dictionary raises.
\<close>

fun AgentConfig_from_legacy_metadata :: "pyval \<Rightarrow> pyerr + AgentConfig" where
  "AgentConfig_from_legacy_metadata (PDict metadata) =
     (let agent_config = dict_get metadata (S ''agent_config'') (PDict []) in
      bind_err (py_get agent_config (S ''company_details'') (PDict [])) (\<lambda>company_details'.
      bind_err (py_get agent_config (S ''agent_personality'') (PDict [])) (\<lambda>agent_personality'.
      let user_details = dict_get metadata (S ''user_details'') (PDict []) in
      bind_err (py_get agent_config (S ''agent_name'') (PStr (S ''Professional Assistant''))) (\<lambda>a_name.
      bind_err (py_get agent_config (S ''company_name'') (PStr (S ''Our Company''))) (\<lambda>c_name.
      bind_err (py_get company_details' (S ''description'') PNone) (\<lambda>c_description.
      bind_err (py_get company_details' (S ''specialties'') PNone) (\<lambda>c_specialties.
      bind_err (py_get company_details' (S ''location'') PNone) (\<lambda>c_location.
      bind_err (py_get company_details' (S ''years_in_business'') PNone) (\<lambda>c_years.
      bind_err (py_get agent_personality' (S ''traits'')
                  (PList [PStr (S ''professional''), PStr (S ''friendly''), PStr (S ''consultative'')])) (\<lambda>p_traits.
      bind_err (py_get agent_personality' (S ''communication_style'')
                  (PStr (S ''warm and professional''))) (\<lambda>p_style.
      let c_purpose = dict_get metadata (S ''call_purpose'') (PStr (S ''general inquiry'')) in
      bind_err (py_get user_details (S ''name'') PNone) (\<lambda>u_name.
      bind_err (py_get user_details (S ''email'') PNone) (\<lambda>u_email.
      bind_err (py_get user_details (S ''phone'') PNone) (\<lambda>u_phone.
      bind_err (py_get user_details (S ''preferences'') PNone) (\<lambda>u_preferences.
      bind_err (py_get user_details (S ''previous_interactions'') PNone) (\<lambda>u_previous.
      bind_err (py_get user_details (S ''notes'') PNone) (\<lambda>u_notes.
      bind_err (py_get agent_config (S ''industry'') (PStr (S ''real estate''))) (\<lambda>a_industry.
      bind_err (py_get agent_config (S ''custom_instructions'') PNone) (\<lambda>a_custom.
      Inr (AgentConfig_init
        a_name
        (CompanyDetails_init c_name c_description c_specialties c_location c_years
           PNone PNone PNone PNone PNone)
        (AgentPersonality_init p_traits p_style PNone PNone PNone)
        (CallContext_init c_purpose PNone PNone PNone PNone PNone PNone)
        (UserContext_init u_name u_email u_phone u_preferences u_previous u_notes
           PNone PNone PNone PNone PNone)
        (Some a_industry)
        a_custom
        None
        PNone
        PNone))))))))))))))))))))"
| "AgentConfig_from_legacy_metadata _ = Inl AttributeError"


section \<open>AgentConfigBuilder\<close>

text \<open>
  The builder's state is its \<open>_config\<close> dictionary.  \<open>self._config[k] = v\<close> is
  \<open>AList.update k v\<close>: an existing key keeps its place, a new key goes to the end.  Each
  setter returns \<open>self\<close>, that is, the updated state.
\<close>

type_synonym AgentConfigBuilder = pydict

definition AgentConfigBuilder_init :: AgentConfigBuilder where
  "AgentConfigBuilder_init = []"

definition with_agent_name :: "pyval \<Rightarrow> AgentConfigBuilder \<Rightarrow> AgentConfigBuilder" where
  "with_agent_name name' b = AList.update (S ''agent_name'') name' b"

definition with_company :: "CompanyDetails \<Rightarrow> AgentConfigBuilder \<Rightarrow> AgentConfigBuilder" where
  "with_company company_details' b =
     AList.update (S ''company_details'') (CompanyDetails_to_dict company_details') b"

definition with_personality :: "AgentPersonality \<Rightarrow> AgentConfigBuilder \<Rightarrow> AgentConfigBuilder" where
  "with_personality personality b =
     AList.update (S ''agent_personality'') (AgentPersonality_to_dict personality) b"

definition with_call_context :: "CallContext \<Rightarrow> AgentConfigBuilder \<Rightarrow> AgentConfigBuilder" where
  "with_call_context call_context' b =
     AList.update (S ''call_context'') (CallContext_to_dict call_context') b"

definition with_user_context :: "UserContext \<Rightarrow> AgentConfigBuilder \<Rightarrow> AgentConfigBuilder" where
  "with_user_context user_context' b =
     AList.update (S ''user_context'') (UserContext_to_dict user_context') b"

definition with_industry :: "pyval \<Rightarrow> AgentConfigBuilder \<Rightarrow> AgentConfigBuilder" where
  "with_industry industry' b = AList.update (S ''industry'') industry' b"

definition with_custom_instructions :: "pyval \<Rightarrow> AgentConfigBuilder \<Rightarrow> AgentConfigBuilder" where
  "with_custom_instructions instructions b = AList.update (S ''custom_instructions'') instructions b"

definition with_language :: "pyval \<Rightarrow> AgentConfigBuilder \<Rightarrow> AgentConfigBuilder" where
  "with_language language' b = AList.update (S ''language'') language' b"

definition with_timezone :: "pyval \<Rightarrow> AgentConfigBuilder \<Rightarrow> AgentConfigBuilder" where
  "with_timezone timezone' b = AList.update (S ''timezone'') timezone' b"

definition with_compliance_requirements :: "pyval \<Rightarrow> AgentConfigBuilder \<Rightarrow> AgentConfigBuilder" where
  "with_compliance_requirements requirements b =
     AList.update (S ''compliance_requirements'') requirements b"

definition build :: "AgentConfigBuilder \<Rightarrow> pyerr + AgentConfig" where
  "build b = AgentConfig_from_dict (PDict b)"


section \<open>Strings\<close>

text \<open>\<open>sep.join(xs)\<close> for a list of strings.\<close>

fun join_str :: "pystr \<Rightarrow> pystr list \<Rightarrow> pystr" where
  "join_str sep [] = []"
| "join_str sep [x] = x"
| "join_str sep (x # y # ys) = x @ sep @ join_str sep (y # ys)"

text \<open>The strings held by a list of values, if all of them are strings.\<close>

fun the_strs :: "pyval list \<Rightarrow> pystr list option" where
  "the_strs [] = Some []"
| "the_strs (PStr s # xs) = map_option (Cons s) (the_strs xs)"
| "the_strs (_ # xs) = None"

text \<open>
  \<open>sep.join(v)\<close> for an arbitrary value: a list must hold strings only, a string is
  iterated character by character, a dictionary by its keys; anything else is not iterable.
\<close>

fun py_join :: "pystr \<Rightarrow> pyval \<Rightarrow> pyerr + pystr" where
  "py_join sep (PList xs) =
     (case the_strs xs of Some ss \<Rightarrow> Inr (join_str sep ss) | None \<Rightarrow> Inl TypeError)"
| "py_join sep (PStr s) = Inr (join_str sep (map (\<lambda>c. [c]) s))"
| "py_join sep (PDict d) = Inr (join_str sep (map fst d))"
| "py_join sep _ = Inl TypeError"

text \<open>\<open>s.replace(old, new)\<close> where \<open>old\<close> is a single character.\<close>

definition replace_char :: "nat \<Rightarrow> pystr \<Rightarrow> pystr \<Rightarrow> pystr" where
  "replace_char old new s = concat (map (\<lambda>c. if c = old then new else [c]) s)"

text \<open>The code points for which \<open>str.isspace\<close> holds, and \<open>s.strip()\<close>.\<close>

definition is_space :: "nat \<Rightarrow> bool" where
  "is_space c \<longleftrightarrow>
     (9 \<le> c \<and> c \<le> 13) \<or> (28 \<le> c \<and> c \<le> 32) \<or> c = 133 \<or> c = 160 \<or> c = 5760
     \<or> (8192 \<le> c \<and> c \<le> 8202) \<or> c = 8232 \<or> c = 8233 \<or> c = 8239 \<or> c = 8287 \<or> c = 12288"

definition py_strip :: "pystr \<Rightarrow> pystr" where
  "py_strip s = rev (dropWhile is_space (rev (dropWhile is_space s)))"

text \<open>\<open>str(n)\<close> for an integer: decimal digits, with a minus sign if negative.\<close>

fun str_nat :: "nat \<Rightarrow> pystr" where
  "str_nat n = (if n < 10 then [48 + n] else str_nat (n div 10) @ [48 + n mod 10])"

definition str_int :: "int \<Rightarrow> pystr" where
  "str_int i = (if i < 0 then 45 # str_nat (nat (- i)) else str_nat (nat i))"

declare str_nat.simps [simp del]

text \<open>
  Two renderings of the interpreter and its library are not modelled and are taken as
  parameters: \<open>json.dumps(v)\<close>, and \<open>str(v)\<close> for a list or a dictionary (which needs
  \<open>repr\<close> of strings).  Every result below holds for all such renderings.
\<close>

record pylib =
  json_dumps :: "pyval \<Rightarrow> pystr"
  container_str :: "pyval \<Rightarrow> pystr"

text \<open>The text that an f-string puts in place of \<open>{v}\<close>, that is, \<open>str(v)\<close>.\<close>

fun py_str :: "pylib \<Rightarrow> pyval \<Rightarrow> pystr" where
  "py_str L PNone = S ''None''"
| "py_str L (PBool b) = (if b then S ''True'' else S ''False'')"
| "py_str L (PInt i) = str_int i"
| "py_str L (PStr s) = s"
| "py_str L (PList xs) = container_str L (PList xs)"
| "py_str L (PDict d) = container_str L (PDict d)"

text \<open>
  A library for the closed instances below, none of which renders a container or calls
  \<open>json.dumps\<close>.
\<close>

definition no_render :: pylib where
  "no_render = \<lparr> json_dumps = (\<lambda>v. []), container_str = (\<lambda>v. []) \<rparr>"


section \<open>PromptBuilder (\<open>prompt.py\<close>)\<close>

subsection \<open>\<open>_format_company_info\<close>\<close>

text \<open>\<open>if cond: info_parts.append(line)\<close>\<close>

definition append_if :: "bool \<Rightarrow> pystr \<Rightarrow> pystr list \<Rightarrow> pystr list" where
  "append_if cond line info_parts = (if cond then info_parts @ [line] else info_parts)"

text \<open>
  \<open>if v: joined = ", ".join(v); info_parts.append(label + joined)\<close>: the join raises on a
  value that is not an iterable of strings.
\<close>

definition append_joined_if :: "pyval \<Rightarrow> pystr \<Rightarrow> pystr list \<Rightarrow> pyerr + pystr list" where
  "append_joined_if v label info_parts =
     (if truthy v
      then bind_err (py_join (S '', '') v) (\<lambda>joined. Inr (info_parts @ [label @ joined]))
      else Inr info_parts)"

text \<open>The list \<open>info_parts\<close> after the six conditional appends.\<close>

definition company_info_parts :: "pylib \<Rightarrow> CompanyDetails \<Rightarrow> pyerr + pystr list" where
  "company_info_parts L company_details' =
     (let info_parts = [];
          info_parts = append_if (truthy (description company_details'))
            (S ''Company Description: '' @ py_str L (description company_details')) info_parts in
      bind_err (append_joined_if (specialties company_details')
            (S ''Company Specialties: '') info_parts) (\<lambda>info_parts.
      let info_parts = append_if (truthy (location company_details'))
            (S ''Service Area: '' @ py_str L (location company_details')) info_parts;
          info_parts = append_if (truthy (years_in_business company_details'))
            (S ''Experience: '' @ py_str L (years_in_business company_details')
               @ S '' years in business'') info_parts;
          info_parts = append_if (truthy (mission_statement company_details'))
            (S ''Mission: '' @ py_str L (mission_statement company_details')) info_parts in
      append_joined_if (company_values company_details') (S ''Company Values: '') info_parts))"

text \<open>
  An entity object is always true, so \<open>if not company_details\<close> fires only for \<open>None\<close>
  (here: the argument \<open>None\<close> of type \<open>option\<close>).
\<close>

fun format_company_info :: "pylib \<Rightarrow> CompanyDetails option \<Rightarrow> pyerr + pystr" where
  "format_company_info L None = Inr []"
| "format_company_info L (Some company_details') =
     bind_err (company_info_parts L company_details') (\<lambda>info_parts.
       Inr (if info_parts \<noteq> [] then join_str [10] info_parts else []))"

subsection \<open>\<open>_format_user_info\<close>\<close>

definition user_info_parts :: "pylib \<Rightarrow> UserContext \<Rightarrow> pyerr + pystr list" where
  "user_info_parts L user_context' =
     (let info_parts = [];
          info_parts = append_if (truthy (UserContext.name user_context'))
            (S ''Client Name: '' @ py_str L (UserContext.name user_context')) info_parts;
          info_parts = append_if (truthy (UserContext.email user_context'))
            (S ''Client Email: '' @ py_str L (UserContext.email user_context')) info_parts;
          info_parts = append_if (truthy (UserContext.phone user_context'))
            (S ''Client Phone: '' @ py_str L (UserContext.phone user_context')) info_parts;
          info_parts = append_if (truthy (preferences user_context'))
            (S ''Client Preferences: '' @ json_dumps L (preferences user_context')) info_parts;
          info_parts = append_if (truthy (previous_interactions user_context'))
            (S ''Previous Interactions: '' @ json_dumps L (previous_interactions user_context'))
            info_parts;
          info_parts = append_if (truthy (user_notes user_context'))
            (S ''Additional Notes: '' @ py_str L (user_notes user_context')) info_parts in
      bind_err (append_joined_if (goals user_context') (S ''Client Goals: '') info_parts)
        (\<lambda>info_parts.
      let info_parts = append_if (truthy (budget user_context'))
            (S ''Budget: '' @ py_str L (budget user_context')) info_parts;
          info_parts = append_if (truthy (timeline user_context'))
            (S ''Timeline: '' @ py_str L (timeline user_context')) info_parts in
      Inr info_parts))"

fun format_user_info :: "pylib \<Rightarrow> UserContext option \<Rightarrow> pyerr + pystr" where
  "format_user_info L None = Inr []"
| "format_user_info L (Some user_context') =
     bind_err (user_info_parts L user_context') (\<lambda>info_parts.
       Inr (if info_parts \<noteq> [] then join_str [10] info_parts else []))"

subsection \<open>\<open>_get_industry_knowledge\<close>\<close>

text \<open>The five paragraphs of \<open>knowledge_map\<close>, each with its leading and trailing line break.\<close>

definition knowledge_real_estate :: pystr where
  "knowledge_real_estate =
       [10]
     @ S ''                Industry Knowledge:''
     @ [10]
     @ S ''                - Knowledgeable about the local real estate market''
     @ [10]
     @ S ''                - Understand property values, market trends, and neigh''
     @ S ''borhood insights''
     @ [10]
     @ S ''                - Familiar with buying/selling processes, financing op''
     @ S ''tions, and legal requirements''
     @ [10]
     @ S ''                - Can provide market analysis and property recommendat''
     @ S ''ions''
     @ [10]
     @ S ''                ''"

definition knowledge_insurance :: pystr where
  "knowledge_insurance =
       [10]
     @ S ''                Industry Knowledge:''
     @ [10]
     @ S ''                - Knowledgeable about various insurance products and c''
     @ S ''overage options''
     @ [10]
     @ S ''                - Understand risk assessment and policy customization''
     @ [10]
     @ S ''                - Familiar with claims processes and customer protecti''
     @ S ''on''
     @ [10]
     @ S ''                - Can provide quotes and explain coverage benefits''
     @ [10]
     @ S ''                ''"

definition knowledge_financial_services :: pystr where
  "knowledge_financial_services =
       [10]
     @ S ''                Industry Knowledge:''
     @ [10]
     @ S ''                - Knowledgeable about financial products and investmen''
     @ S ''t options''
     @ [10]
     @ S ''                - Understand market conditions and financial planning''
     @ [10]
     @ S ''                - Familiar with regulatory requirements and compliance''
     @ [10]
     @ S ''                - Can provide financial advice and product recommendat''
     @ S ''ions''
     @ [10]
     @ S ''                ''"

definition knowledge_healthcare :: pystr where
  "knowledge_healthcare =
       [10]
     @ S ''                Industry Knowledge:''
     @ [10]
     @ S ''                - Knowledgeable about healthcare services and treatmen''
     @ S ''t options''
     @ [10]
     @ S ''                - Understand patient care and medical procedures''
     @ [10]
     @ S ''                - Familiar with insurance coverage and billing process''
     @ S ''es''
     @ [10]
     @ S ''                - Can provide information about appointments and servi''
     @ S ''ces''
     @ [10]
     @ S ''                ''"

definition knowledge_default :: pystr where
  "knowledge_default =
       [10]
     @ S ''                Industry Knowledge:''
     @ [10]
     @ S ''                - Knowledgeable about your industry and market''
     @ [10]
     @ S ''                - Professional and consultative in your approach''
     @ [10]
     @ S ''                - Focused on understanding client needs and providing ''
     @ S ''value''
     @ [10]
     @ S ''                ''"

definition knowledge_map :: "(pystr \<times> pystr) list" where
  "knowledge_map =
     [ (S ''real estate'', knowledge_real_estate),
       (S ''insurance'', knowledge_insurance),
       (S ''financial services'', knowledge_financial_services),
       (S ''healthcare'', knowledge_healthcare),
       (S ''default'', knowledge_default) ]"

text \<open>
  \<open>knowledge_map.get(industry, knowledge_map["default"])\<close>: the default is looked up
  first; a list or a dictionary is not hashable and cannot be a key; a key that is not a
  string equals none of the table's keys.
\<close>

fun get_industry_knowledge :: "pyval \<Rightarrow> pyerr + pystr" where
  "get_industry_knowledge industry' =
     (case map_of knowledge_map (S ''default'') of
        None \<Rightarrow> Inl KeyError
      | Some dflt \<Rightarrow>
          (case industry' of
             PList _ \<Rightarrow> Inl TypeError
           | PDict _ \<Rightarrow> Inl TypeError
           | PStr s \<Rightarrow> Inr (case map_of knowledge_map s of Some block \<Rightarrow> block | None \<Rightarrow> dflt)
           | _ \<Rightarrow> Inr dflt))"

subsection \<open>\<open>build_prompt\<close>\<close>

text \<open>The static pieces of the f-string, in order, between its thirteen replacement fields.\<close>

definition tpl_0 :: pystr where
  "tpl_0 =
       [10]
     @ S ''            You are ''"

definition tpl_1 :: pystr where
  "tpl_1 =
       S '', a ''"

definition tpl_2 :: pystr where
  "tpl_2 =
       S '' ''"

definition tpl_3 :: pystr where
  "tpl_3 =
       S '' professional representing ''"

definition tpl_4 :: pystr where
  "tpl_4 =
       S ''. Your interface with the user is by Telephony (voice call).''
     @ [10]
     @ [10]
     @ S ''            ''"

definition tpl_5 :: pystr where
  "tpl_5 =
       [10]
     @ [10]
     @ S ''            ''"

definition tpl_6 :: pystr where
  "tpl_6 =
       [10]
     @ [10]
     @ S ''            Call Purpose: ''"

definition tpl_7 :: pystr where
  "tpl_7 =
       [10]
     @ [10]
     @ S ''            Personality & Communication Style:''
     @ [10]
     @ S ''            - You are ''"

definition tpl_8 :: pystr where
  "tpl_8 =
       [10]
     @ S ''            - ''"

definition tpl_9 :: pystr where
  "tpl_9 =
       S '' in your approach''
     @ [10]
     @ S ''            - Focused on understanding the client's needs and providin''
     @ S ''g value''
     @ [10]
     @ S ''            - Respectful of their time and preferences''
     @ [10]
     @ [10]
     @ S ''            ''"

definition tpl_10 :: pystr where
  "tpl_10 =
       [10]
     @ [10]
     @ S ''            Your goal is to engage with the client about their ''"

definition tpl_11 :: pystr where
  "tpl_11 =
       S '' needs and provide helpful information or schedule follow-up activitie''
     @ S ''s as appropriate.''
     @ [10]
     @ S ''            Always be polite and professional. Allow the user to end t''
     @ S ''he conversation when they're ready.''
     @ [10]
     @ [10]
     @ S ''            Available Tools (use when appropriate):''
     @ [10]
     @ S ''            - end_call: **MOST IMPORTANT** - Call this when the user w''
     @ S ''ants to end the call, says goodbye, or conversation is complete. ALWAY''
     @ S ''S call this to properly end calls.''
     @ [10]
     @ S ''            - transfer_call: Transfer to a human agent after confirmin''
     @ S ''g with user, then call end_call.''
     @ [10]
     @ S ''            - schedule_property_viewing: Schedule a property viewing w''
     @ S ''hen user requests it (needs: property_address, preferred_date, preferr''
     @ S ''ed_time).''
     @ [10]
     @ S ''            - schedule_consultation: Schedule a consultation meeting w''
     @ S ''hen user wants to meet (needs: consultation_type, date, time).''
     @ [10]
     @ S ''            - send_email: Send email to user when requested or for fol''
     @ S ''low-up materials (needs: email_to, subject, body).''
     @ [10]
     @ S ''            - get_property_info: Get property details when user asks a''
     @ S ''bout a specific property (needs: property_address).''
     @ [10]
     @ S ''            - send_property_listings: Send property listings matching ''
     @ S ''user's search criteria (needs: criteria).''
     @ [10]
     @ S ''            - detected_answering_machine: Call when you detect voicema''
     @ S ''il AFTER hearing the greeting.''
     @ [10]
     @ [10]
     @ S ''            ''"

definition tpl_12 :: pystr where
  "tpl_12 =
       [10]
     @ S ''        ''"

definition build_prompt :: "pylib \<Rightarrow> AgentConfig \<Rightarrow> pyerr + pystr" where
  "build_prompt L config =
     (let personality_traits = traits (agent_personality config) in
      bind_err
        (if truthy personality_traits
         then py_join (S '', '') personality_traits
         else Inr (S ''professional, friendly, and consultative'')) (\<lambda>personality_str.
      let communication_style' = communication_style (agent_personality config) in
      bind_err (format_company_info L (Some (company_details config))) (\<lambda>company_info.
      bind_err (format_user_info L (Some (user_context config))) (\<lambda>user_info.
      bind_err (get_industry_knowledge (industry config)) (\<lambda>industry_knowledge.
      let custom_instructions' = py_or (custom_instructions config) (PStr []) in
      Inr (py_strip
        (tpl_0 @ py_str L (agent_name config)
         @ tpl_1 @ personality_str
         @ tpl_2 @ py_str L (industry config)
         @ tpl_3 @ py_str L (CompanyDetails.name (company_details config))
         @ tpl_4 @ company_info
         @ tpl_5 @ user_info
         @ tpl_6 @ py_str L (purpose (call_context config))
         @ tpl_7 @ py_str L communication_style'
         @ tpl_8 @ replace_char 44 (S '' and'') personality_str
         @ tpl_9 @ industry_knowledge
         @ tpl_10 @ py_str L (industry config)
         @ tpl_11 @ py_str L custom_instructions'
         @ tpl_12)))))))"


section \<open>The end-to-end scenario\<close>

text \<open>
  The configuration of the scenario: every argument that the scenario leaves out is at its
  default.
\<close>

definition scenario_config :: AgentConfig where
  "scenario_config = AgentConfig_init (PStr (S ''Ana''))
     (CompanyDetails_init (PStr (S ''Acme'')) PNone (PList [PStr (S ''a''), PStr (S ''b'')])
        PNone PNone PNone PNone PNone PNone PNone)
     (AgentPersonality_init (PList [PStr (S ''x''), PStr (S ''y'')]) (PStr (S ''calm''))
        PNone PNone PNone)
     (CallContext_init (PStr (S ''intro call'')) PNone PNone PNone PNone PNone PNone)
     (UserContext_init (PStr (S ''Bob'')) PNone PNone PNone PNone PNone PNone PNone PNone PNone PNone)
     (Some (PStr (S ''insurance''))) PNone None PNone PNone"

text \<open>The prompt of the scenario, written out.\<close>

definition scenario_prompt :: pystr where
  "scenario_prompt =
       S ''You are Ana, a x, y insurance professional representing Acme. Your int''
     @ S ''erface with the user is by Telephony (voice call).''
     @ [10]
     @ [10]
     @ S ''            Company Specialties: a, b''
     @ [10]
     @ [10]
     @ S ''            Client Name: Bob''
     @ [10]
     @ [10]
     @ S ''            Call Purpose: intro call''
     @ [10]
     @ [10]
     @ S ''            Personality & Communication Style:''
     @ [10]
     @ S ''            - You are calm''
     @ [10]
     @ S ''            - x and y in your approach''
     @ [10]
     @ S ''            - Focused on understanding the client's needs and providin''
     @ S ''g value''
     @ [10]
     @ S ''            - Respectful of their time and preferences''
     @ [10]
     @ [10]
     @ S ''            ''
     @ [10]
     @ S ''                Industry Knowledge:''
     @ [10]
     @ S ''                - Knowledgeable about various insurance products and c''
     @ S ''overage options''
     @ [10]
     @ S ''                - Understand risk assessment and policy customization''
     @ [10]
     @ S ''                - Familiar with claims processes and customer protecti''
     @ S ''on''
     @ [10]
     @ S ''                - Can provide quotes and explain coverage benefits''
     @ [10]
     @ S ''                ''
     @ [10]
     @ [10]
     @ S ''            Your goal is to engage with the client about their insuran''
     @ S ''ce needs and provide helpful information or schedule follow-up activit''
     @ S ''ies as appropriate.''
     @ [10]
     @ S ''            Always be polite and professional. Allow the user to end t''
     @ S ''he conversation when they're ready.''
     @ [10]
     @ [10]
     @ S ''            Available Tools (use when appropriate):''
     @ [10]
     @ S ''            - end_call: **MOST IMPORTANT** - Call this when the user w''
     @ S ''ants to end the call, says goodbye, or conversation is complete. ALWAY''
     @ S ''S call this to properly end calls.''
     @ [10]
     @ S ''            - transfer_call: Transfer to a human agent after confirmin''
     @ S ''g with user, then call end_call.''
     @ [10]
     @ S ''            - schedule_property_viewing: Schedule a property viewing w''
     @ S ''hen user requests it (needs: property_address, preferred_date, preferr''
     @ S ''ed_time).''
     @ [10]
     @ S ''            - schedule_consultation: Schedule a consultation meeting w''
     @ S ''hen user wants to meet (needs: consultation_type, date, time).''
     @ [10]
     @ S ''            - send_email: Send email to user when requested or for fol''
     @ S ''low-up materials (needs: email_to, subject, body).''
     @ [10]
     @ S ''            - get_property_info: Get property details when user asks a''
     @ S ''bout a specific property (needs: property_address).''
     @ [10]
     @ S ''            - send_property_listings: Send property listings matching ''
     @ S ''user's search criteria (needs: criteria).''
     @ [10]
     @ S ''            - detected_answering_machine: Call when you detect voicema''
     @ S ''il AFTER hearing the greeting.''"


section \<open>Further example configurations\<close>

text \<open>
  A company with fifteen years in business, a company with zero years in business, and a
  configuration whose user has the budget \<open>$1.5M\<close>, an en dash (U+2013), \<open>2M\<close>.
\<close>

definition example_company :: CompanyDetails where
  "example_company = CompanyDetails_init (PStr (S ''Acme'')) (PStr (S ''Family business''))
     (PList [PStr (S ''a''), PStr (S ''b'')]) PNone (PInt 15) PNone PNone PNone PNone PNone"

definition zero_years_company :: CompanyDetails where
  "zero_years_company = CompanyDetails_init (PStr (S ''Acme'')) (PStr (S ''New agency''))
     PNone PNone (PInt 0) PNone PNone PNone PNone PNone"

definition budget_config :: AgentConfig where
  "budget_config = AgentConfig_init (PStr (S ''Ana''))
     (CompanyDetails_init (PStr (S ''Acme'')) PNone PNone PNone PNone PNone PNone PNone PNone PNone)
     (AgentPersonality_init (PList []) (PStr (S ''calm'')) PNone PNone PNone)
     (CallContext_init (PStr (S ''intro call'')) PNone PNone PNone PNone PNone PNone)
     (UserContext_init (PStr (S ''Bob'')) PNone PNone PNone PNone PNone PNone PNone PNone
        (PStr (S ''$1.5M'' @ 8211 # S ''2M'')) PNone)
     None PNone None PNone PNone"

text \<open>
  The scenario's configuration with no budget and a note of two lines, the second of which
  reads \<open>Budget: 5\<close>; and its prompt: the scenario's prompt with two more lines after
  \<open>Client Name: Bob\<close>, which ends at position 189.
\<close>

definition notes_config :: AgentConfig where
  "notes_config = AgentConfig_init (PStr (S ''Ana''))
     (CompanyDetails_init (PStr (S ''Acme'')) PNone (PList [PStr (S ''a''), PStr (S ''b'')])
        PNone PNone PNone PNone PNone PNone PNone)
     (AgentPersonality_init (PList [PStr (S ''x''), PStr (S ''y'')]) (PStr (S ''calm''))
        PNone PNone PNone)
     (CallContext_init (PStr (S ''intro call'')) PNone PNone PNone PNone PNone PNone)
     (UserContext_init (PStr (S ''Bob'')) PNone PNone PNone PNone
        (PStr (S ''see below'' @ 10 # S ''Budget: 5'')) PNone PNone PNone PNone PNone)
     (Some (PStr (S ''insurance''))) PNone None PNone PNone"

definition notes_prompt :: pystr where
  "notes_prompt = take 189 scenario_prompt
     @ 10 # S ''Additional Notes: see below''
     @ 10 # S ''Budget: 5''
     @ drop 189 scenario_prompt"


section \<open>Predicates used to state the properties\<close>

text \<open>The key \<open>k\<close> is absent from the mapping, or bound to \<open>None\<close>.\<close>

definition none_or_missing :: "pydict \<Rightarrow> pystr \<Rightarrow> bool" where
  "none_or_missing d k = (map_of d k = None \<or> map_of d k = Some PNone)"

text \<open>
  The legacy shape: \<open>agent_config\<close> and \<open>user_details\<close>, and \<open>company_details\<close> and
  \<open>agent_personality\<close> inside \<open>agent_config\<close>, are each absent or a mapping.
\<close>

fun absent_or_dict :: "pyval option \<Rightarrow> bool" where
  "absent_or_dict None = True"
| "absent_or_dict (Some (PDict _)) = True"
| "absent_or_dict (Some _) = False"

definition legacy_shape :: "pydict \<Rightarrow> bool" where
  "legacy_shape metadata =
     (absent_or_dict (map_of metadata (S ''agent_config''))
      \<and> absent_or_dict (map_of metadata (S ''user_details''))
      \<and> (case map_of metadata (S ''agent_config'') of
            Some (PDict a) \<Rightarrow>
              absent_or_dict (map_of a (S ''company_details''))
              \<and> absent_or_dict (map_of a (S ''agent_personality''))
          | _ \<Rightarrow> True))"


text \<open>
  The strings \<open>ps\<close> occur in \<open>t\<close> in the order of the list, one after the end of the
  other.
\<close>

fun in_order :: "'a list list \<Rightarrow> 'a list \<Rightarrow> bool" where
  "in_order [] t = True"
| "in_order (p # ps) t = (\<exists>a b. t = a @ p @ b \<and> in_order ps b)"

text \<open>
  The company block as the specification words it: one labelled line for each of the six
  fields that is present and non-empty (true, in Python's sense), in the fixed order; the
  two list fields joined with a comma and a space.
\<close>

definition joined :: "pyval \<Rightarrow> pystr" where
  "joined v = (case py_join (S '', '') v of Inr s \<Rightarrow> s | Inl e \<Rightarrow> [])"

definition company_lines_spec :: "pylib \<Rightarrow> CompanyDetails \<Rightarrow> pystr list" where
  "company_lines_spec L c = map snd (filter (\<lambda>(v, line). truthy v)
     [ (description c, S ''Company Description: '' @ py_str L (description c)),
       (specialties c, S ''Company Specialties: '' @ joined (specialties c)),
       (location c, S ''Service Area: '' @ py_str L (location c)),
       (years_in_business c,
          S ''Experience: '' @ py_str L (years_in_business c) @ S '' years in business''),
       (mission_statement c, S ''Mission: '' @ py_str L (mission_statement c)),
       (company_values c, S ''Company Values: '' @ joined (company_values c)) ])"

text \<open>A value that \<open>", ".join\<close> accepts where the code joins it: nothing, or a list of strings.\<close>

fun str_list_or_none :: "pyval \<Rightarrow> bool" where
  "str_list_or_none PNone = True"
| "str_list_or_none (PList xs) = (the_strs xs \<noteq> None)"
| "str_list_or_none _ = False"


text \<open>
  The user block as the specification words it, like the company block: one labelled entry
  for each of the nine fields that is true, in the fixed order.
\<close>

definition user_lines_spec :: "pylib \<Rightarrow> UserContext \<Rightarrow> pystr list" where
  "user_lines_spec L u = map snd (filter (\<lambda>(v, line). truthy v)
     [ (UserContext.name u, S ''Client Name: '' @ py_str L (UserContext.name u)),
       (UserContext.email u, S ''Client Email: '' @ py_str L (UserContext.email u)),
       (UserContext.phone u, S ''Client Phone: '' @ py_str L (UserContext.phone u)),
       (preferences u, S ''Client Preferences: '' @ json_dumps L (preferences u)),
       (previous_interactions u,
          S ''Previous Interactions: '' @ json_dumps L (previous_interactions u)),
       (user_notes u, S ''Additional Notes: '' @ py_str L (user_notes u)),
       (goals u, S ''Client Goals: '' @ joined (goals u)),
       (budget u, S ''Budget: '' @ py_str L (budget u)),
       (timeline u, S ''Timeline: '' @ py_str L (timeline u)) ])"

text \<open>
  The lines of a text are the pieces between its line feeds.  A budget line is a line whose
  first characters after its indentation are \<open>Budget:\<close>.
\<close>

fun py_lines :: "pystr \<Rightarrow> pystr list" where
  "py_lines [] = [[]]"
| "py_lines (c # cs) =
     (if c = 10 then [] # py_lines cs
      else (case py_lines cs of [] \<Rightarrow> [[c]] | l # ls \<Rightarrow> (c # l) # ls))"

definition is_budget_line :: "pystr \<Rightarrow> bool" where
  "is_budget_line l = prefix (S ''Budget:'') (dropWhile is_space l)"

text \<open>
  The texts that \<open>build_prompt\<close> puts into the template: the scalar fields as the f-string
  renders them, the joined traits (or their fallback), and the entries of the company block
  and of the user block.  \<open>one_line_texts\<close>: none of them holds a line feed, and the custom
  instructions do not themselves begin with \<open>Budget:\<close>.
\<close>

definition personality_text :: "AgentConfig \<Rightarrow> pystr" where
  "personality_text c =
     (if truthy (traits (agent_personality c)) then joined (traits (agent_personality c))
      else S ''professional, friendly, and consultative'')"

definition interpolated_texts :: "pylib \<Rightarrow> AgentConfig \<Rightarrow> pystr list" where
  "interpolated_texts L c =
     [ py_str L (agent_name c),
       personality_text c,
       py_str L (industry c),
       py_str L (CompanyDetails.name (company_details c)),
       py_str L (purpose (call_context c)),
       py_str L (communication_style (agent_personality c)),
       py_str L (py_or (custom_instructions c) (PStr [])) ]
     @ company_lines_spec L (company_details c)
     @ user_lines_spec L (user_context c)"

definition one_line_texts :: "pylib \<Rightarrow> AgentConfig \<Rightarrow> bool" where
  "one_line_texts L c \<longleftrightarrow>
     (\<forall>t\<in>set (interpolated_texts L c). 10 \<notin> set t)
     \<and> \<not> is_budget_line (py_str L (py_or (custom_instructions c) (PStr [])))"

text \<open>
  Two notions used in the proofs only: \<open>s.rstrip()\<close>, and a text whose lines before the
  last are no budget lines and whose last line has a first character other than \<open>B\<close> after
  its indentation, so that no continuation of the text turns that line into a budget line.
\<close>

definition py_rstrip :: "pystr \<Rightarrow> pystr" where
  "py_rstrip s = rev (dropWhile is_space (rev s))"

definition sealed :: "pystr \<Rightarrow> bool" where
  "sealed t \<longleftrightarrow> filter is_budget_line (butlast (py_lines t)) = []
     \<and> (\<exists>c r. dropWhile is_space (last (py_lines t)) = c # r \<and> c \<noteq> 66)"


section \<open>Properties of the configuration entities\<close>

lemma S_eq_iff [simp]: "(S a = S b) = (a = b)"
  by (rule inj_map_eq_map) (simp add: inj_on_def)

lemma py_or_idem: "py_or (py_or a d) d = py_or a d"
  by (simp add: py_or_def)

text \<open>
  Claim C3 (default-fill law).  \<open>AgentConfig.from_dict({})\<close> does not raise and returns the
  configuration with every field at its default: agent name "Professional Assistant",
  industry "real estate", language "en", \<open>custom_instructions\<close> and \<open>timezone\<close> \<open>None\<close>,
  no compliance requirements, and the four nested entities at the defaults of their own
  \<open>from_dict\<close> (priority "normal", \<open>follow_up_required\<close> \<open>False\<close>, company name "", empty
  collections).
\<close>

theorem from_dict_empty_defaults:
  "AgentConfig_from_dict (PDict []) = Inr
     \<lparr> agent_name = PStr (S ''Professional Assistant''),
       company_details =
         \<lparr> CompanyDetails.name = PStr [], description = PNone, specialties = PList [],
           location = PNone, years_in_business = PNone, website = PNone,
           CompanyDetails.phone = PNone, CompanyDetails.email = PNone,
           mission_statement = PNone, company_values = PList [] \<rparr>,
       agent_personality =
         \<lparr> traits = PList [], communication_style = PStr (S ''professional''),
           tone = PStr (S ''professional''), expertise_level = PStr (S ''expert''),
           response_speed = PStr (S ''conversational'') \<rparr>,
       call_context =
         \<lparr> purpose = PStr [], priority = PStr (S ''normal''), expected_duration = PNone,
           follow_up_required = PBool False, success_metrics = PList [],
           call_script = PNone, key_points = PList [] \<rparr>,
       user_context =
         \<lparr> UserContext.name = PNone, UserContext.email = PNone, UserContext.phone = PNone,
           preferences = PDict [], previous_interactions = PList [], user_notes = PNone,
           demographics = PDict [], pain_points = PList [], goals = PList [],
           budget = PNone, timeline = PNone \<rparr>,
       industry = PStr (S ''real estate''),
       custom_instructions = PNone,
       language = PStr (S ''en''),
       timezone = PNone,
       compliance_requirements = PList [] \<rparr>"
  by (simp add: bind_err_def dict_get_def py_or_def AgentConfig_init_def CompanyDetails_init_def
        AgentPersonality_init_def CallContext_init_def UserContext_init_def)

lemma AgentPersonality_roundtrip:
  "AgentPersonality_from_dict (AgentPersonality_to_dict (AgentPersonality_init t c to e r))
     = Inr (AgentPersonality_init t c to e r)"
  by (simp add: AgentPersonality_to_dict_def AgentPersonality_init_def dict_get_def py_or_idem)

lemma CompanyDetails_roundtrip:
  "CompanyDetails_from_dict (CompanyDetails_to_dict (CompanyDetails_init a b c d e f g h i j))
     = Inr (CompanyDetails_init a b c d e f g h i j)"
  by (simp add: CompanyDetails_to_dict_def CompanyDetails_init_def dict_get_def py_or_idem)

lemma UserContext_roundtrip:
  "UserContext_from_dict (UserContext_to_dict (UserContext_init a b c d e f g h i j k))
     = Inr (UserContext_init a b c d e f g h i j k)"
  by (simp add: UserContext_to_dict_def UserContext_init_def dict_get_def py_or_idem)

lemma CallContext_roundtrip:
  "CallContext_from_dict (CallContext_to_dict (CallContext_init a b c d e f g))
     = Inr (CallContext_init a b c d e f g)"
  by (simp add: CallContext_to_dict_def CallContext_init_def dict_get_def py_or_idem)

text \<open>
  Claim C1 (round-trip law).  For every \<open>AgentConfig\<close> built by its constructor from
  entities built by theirs, \<open>from_dict(to_dict(c))\<close> does not raise and returns a
  configuration equal to \<open>c\<close> in every field, nested fields included.  The arguments of
  the constructors are arbitrary values: the law does not depend on their types.
\<close>

theorem AgentConfig_roundtrip:
  "AgentConfig_from_dict (AgentConfig_to_dict
      (AgentConfig_init an
         (CompanyDetails_init c1 c2 c3 c4 c5 c6 c7 c8 c9 c10)
         (AgentPersonality_init p1 p2 p3 p4 p5)
         (CallContext_init k1 k2 k3 k4 k5 k6 k7)
         (UserContext_init u1 u2 u3 u4 u5 u6 u7 u8 u9 u10 u11)
         ind ci lang tz cr))
   = Inr (AgentConfig_init an
         (CompanyDetails_init c1 c2 c3 c4 c5 c6 c7 c8 c9 c10)
         (AgentPersonality_init p1 p2 p3 p4 p5)
         (CallContext_init k1 k2 k3 k4 k5 k6 k7)
         (UserContext_init u1 u2 u3 u4 u5 u6 u7 u8 u9 u10 u11)
         ind ci lang tz cr)"
  by (simp add: AgentConfig_to_dict_def AgentConfig_init_def dict_get_def bind_err_def py_or_idem
        AgentPersonality_roundtrip CompanyDetails_roundtrip UserContext_roundtrip CallContext_roundtrip
        split: option.splits)


lemma dict_get_none_or_missing:
  "none_or_missing d k \<Longrightarrow> py_or (dict_get d k PNone) dflt = dflt"
  by (auto simp: none_or_missing_def dict_get_def py_or_def)

text \<open>
  Claim C5 as stated fails: \<open>AgentPersonality.from_dict({"traits": None})\<close> stores \<open>None\<close>
  in \<open>traits\<close>, while \<open>AgentPersonality.from_dict({})\<close> stores the default \<open>[]\<close>.  The
  constructor assigns \<open>traits\<close> as it is given, without \<open>or []\<close>.
\<close>

theorem from_dict_None_traits_counterexample:
  "map_sum id traits (AgentPersonality_from_dict (PDict [(S ''traits'', PNone)])) = Inr PNone
   \<and> map_sum id traits (AgentPersonality_from_dict (PDict [])) = Inr (PList [])"
  by (simp add: AgentPersonality_init_def dict_get_def)

text \<open>
  Claim C5, amended (None-as-missing tolerance).  Every entity \<open>from_dict\<close> returns on a
  mapping, and for each field that the entity's constructor normalises with \<open>or\<close>
  (\<open>tone\<close>, \<open>expertise_level\<close>, \<open>response_speed\<close>; \<open>specialties\<close>, \<open>values\<close>;
  \<open>preferences\<close>, \<open>previous_interactions\<close>, \<open>demographics\<close>, \<open>pain_points\<close>, \<open>goals\<close>;
  \<open>priority\<close>, \<open>follow_up_required\<close>, \<open>success_metrics\<close>, \<open>key_points\<close>) a key bound to
  \<open>None\<close> and an absent key both give the field its default.
\<close>

theorem from_dict_None_as_missing:
  "(\<exists>p. AgentPersonality_from_dict (PDict d1) = Inr p
      \<and> (none_or_missing d1 (S ''tone'') \<longrightarrow> tone p = PStr (S ''professional''))
      \<and> (none_or_missing d1 (S ''expertise_level'') \<longrightarrow> expertise_level p = PStr (S ''expert''))
      \<and> (none_or_missing d1 (S ''response_speed'') \<longrightarrow> response_speed p = PStr (S ''conversational'')))
   \<and> (\<exists>c. CompanyDetails_from_dict (PDict d2) = Inr c
      \<and> (none_or_missing d2 (S ''specialties'') \<longrightarrow> specialties c = PList [])
      \<and> (none_or_missing d2 (S ''values'') \<longrightarrow> company_values c = PList []))
   \<and> (\<exists>u. UserContext_from_dict (PDict d3) = Inr u
      \<and> (none_or_missing d3 (S ''preferences'') \<longrightarrow> preferences u = PDict [])
      \<and> (none_or_missing d3 (S ''previous_interactions'') \<longrightarrow> previous_interactions u = PList [])
      \<and> (none_or_missing d3 (S ''demographics'') \<longrightarrow> demographics u = PDict [])
      \<and> (none_or_missing d3 (S ''pain_points'') \<longrightarrow> pain_points u = PList [])
      \<and> (none_or_missing d3 (S ''goals'') \<longrightarrow> goals u = PList []))
   \<and> (\<exists>k. CallContext_from_dict (PDict d4) = Inr k
      \<and> (none_or_missing d4 (S ''priority'') \<longrightarrow> priority k = PStr (S ''normal''))
      \<and> (none_or_missing d4 (S ''follow_up_required'') \<longrightarrow> follow_up_required k = PBool False)
      \<and> (none_or_missing d4 (S ''success_metrics'') \<longrightarrow> success_metrics k = PList [])
      \<and> (none_or_missing d4 (S ''key_points'') \<longrightarrow> key_points k = PList []))"
  by (simp add: AgentPersonality_init_def CompanyDetails_init_def UserContext_init_def
        CallContext_init_def dict_get_none_or_missing)

theorem from_dict_None_as_missing_witness:
  "none_or_missing [(S ''tone'', PNone)] (S ''tone'')
   \<and> none_or_missing [] (S ''tone'')
   \<and> map_sum id tone (AgentPersonality_from_dict (PDict [(S ''tone'', PNone)])) = Inr (PStr (S ''professional''))
   \<and> map_sum id tone (AgentPersonality_from_dict (PDict [])) = Inr (PStr (S ''professional''))
   \<and> none_or_missing [(S ''priority'', PNone)] (S ''priority'')
   \<and> map_sum id priority (CallContext_from_dict (PDict [(S ''priority'', PNone)])) = Inr (PStr (S ''normal''))"
  using from_dict_None_as_missing [of "[(S ''tone'', PNone)]" "[]" "[]" "[(S ''priority'', PNone)]"]
        from_dict_None_as_missing [of "[]" "[]" "[]" "[]"]
  by (auto simp: none_or_missing_def)

lemma build_cong: "map_of b = map_of b' \<Longrightarrow> build b = build b'"
  by (simp add: build_def dict_get_def)

lemma build_full_chain:
  "build (with_compliance_requirements cr (with_timezone tz (with_language lang
      (with_custom_instructions ci (with_industry ind
      (with_user_context (UserContext_init u1 u2 u3 u4 u5 u6 u7 u8 u9 u10 u11)
      (with_call_context (CallContext_init k1 k2 k3 k4 k5 k6 k7)
      (with_personality (AgentPersonality_init p1 p2 p3 p4 p5)
      (with_company (CompanyDetails_init c1 c2 c3 c4 c5 c6 c7 c8 c9 c10)
      (with_agent_name an AgentConfigBuilder_init))))))))))
   = Inr (AgentConfig_init an
         (CompanyDetails_init c1 c2 c3 c4 c5 c6 c7 c8 c9 c10)
         (AgentPersonality_init p1 p2 p3 p4 p5)
         (CallContext_init k1 k2 k3 k4 k5 k6 k7)
         (UserContext_init u1 u2 u3 u4 u5 u6 u7 u8 u9 u10 u11)
         (Some ind) ci (Some lang) tz cr)"
  by (simp add: build_def AgentConfigBuilder_init_def with_agent_name_def with_company_def
        with_personality_def with_call_context_def with_user_context_def with_industry_def
        with_custom_instructions_def with_language_def with_timezone_def
        with_compliance_requirements_def dict_get_def bind_err_def
        AgentPersonality_roundtrip CompanyDetails_roundtrip UserContext_roundtrip
        CallContext_roundtrip AgentConfig_init_def py_or_idem)

text \<open>
  Claim C9 (builder semantics).  \<open>build()\<close> is \<open>AgentConfig.from_dict\<close> on the accumulated
  mapping, and depends on the mapping's bindings only.  Every \<open>with_X\<close> returns the builder
  with its key bound to the entity's \<open>to_dict()\<close> (a scalar setter: to the value itself)
  and every other key bound as before.  Calling the same setter twice leaves the builder as
  the second call alone would, so \<open>with_company(e1).with_company(e2).build()\<close> equals
  \<open>with_company(e2).build()\<close>.  A builder on which all ten setters were called builds
  the configuration that the constructors give for the same arguments.
\<close>

theorem builder_semantics:
  "build b = AgentConfig_from_dict (PDict b)
   \<and> (map_of b = map_of b' \<longrightarrow> build b = build b')
   \<and> map_of (with_agent_name v b) = (map_of b)(S ''agent_name'' \<mapsto> v)
   \<and> map_of (with_company cd b) = (map_of b)(S ''company_details'' \<mapsto> CompanyDetails_to_dict cd)
   \<and> map_of (with_personality ap b)
        = (map_of b)(S ''agent_personality'' \<mapsto> AgentPersonality_to_dict ap)
   \<and> map_of (with_call_context cc b) = (map_of b)(S ''call_context'' \<mapsto> CallContext_to_dict cc)
   \<and> map_of (with_user_context uc b) = (map_of b)(S ''user_context'' \<mapsto> UserContext_to_dict uc)
   \<and> map_of (with_industry v b) = (map_of b)(S ''industry'' \<mapsto> v)
   \<and> map_of (with_custom_instructions v b) = (map_of b)(S ''custom_instructions'' \<mapsto> v)
   \<and> map_of (with_language v b) = (map_of b)(S ''language'' \<mapsto> v)
   \<and> map_of (with_timezone v b) = (map_of b)(S ''timezone'' \<mapsto> v)
   \<and> map_of (with_compliance_requirements v b) = (map_of b)(S ''compliance_requirements'' \<mapsto> v)
   \<and> map_of (with_agent_name v b) (S ''agent_name'') = Some v
   \<and> map_of (with_company cd b) (S ''company_details'') = Some (CompanyDetails_to_dict cd)
   \<and> map_of (with_personality ap b) (S ''agent_personality'') = Some (AgentPersonality_to_dict ap)
   \<and> map_of (with_call_context cc b) (S ''call_context'') = Some (CallContext_to_dict cc)
   \<and> map_of (with_user_context uc b) (S ''user_context'') = Some (UserContext_to_dict uc)
   \<and> map_of (with_industry v b) (S ''industry'') = Some v
   \<and> map_of (with_custom_instructions v b) (S ''custom_instructions'') = Some v
   \<and> map_of (with_language v b) (S ''language'') = Some v
   \<and> map_of (with_timezone v b) (S ''timezone'') = Some v
   \<and> map_of (with_compliance_requirements v b) (S ''compliance_requirements'') = Some v
   \<and> with_agent_name v2 (with_agent_name v1 b) = with_agent_name v2 b
   \<and> with_company e2 (with_company e1 b) = with_company e2 b
   \<and> with_personality ap2 (with_personality ap1 b) = with_personality ap2 b
   \<and> with_call_context cc2 (with_call_context cc1 b) = with_call_context cc2 b
   \<and> with_user_context uc2 (with_user_context uc1 b) = with_user_context uc2 b
   \<and> with_industry v2 (with_industry v1 b) = with_industry v2 b
   \<and> with_custom_instructions v2 (with_custom_instructions v1 b) = with_custom_instructions v2 b
   \<and> with_language v2 (with_language v1 b) = with_language v2 b
   \<and> with_timezone v2 (with_timezone v1 b) = with_timezone v2 b
   \<and> with_compliance_requirements v2 (with_compliance_requirements v1 b)
        = with_compliance_requirements v2 b
   \<and> build (with_company e2 (with_company e1 b)) = build (with_company e2 b)
   \<and> build (with_compliance_requirements cr (with_timezone tz (with_language lang
        (with_custom_instructions ci (with_industry ind
        (with_user_context (UserContext_init u1 u2 u3 u4 u5 u6 u7 u8 u9 u10 u11)
        (with_call_context (CallContext_init k1 k2 k3 k4 k5 k6 k7)
        (with_personality (AgentPersonality_init p1 p2 p3 p4 p5)
        (with_company (CompanyDetails_init c1 c2 c3 c4 c5 c6 c7 c8 c9 c10)
        (with_agent_name an AgentConfigBuilder_init))))))))))
       = Inr (AgentConfig_init an
           (CompanyDetails_init c1 c2 c3 c4 c5 c6 c7 c8 c9 c10)
           (AgentPersonality_init p1 p2 p3 p4 p5)
           (CallContext_init k1 k2 k3 k4 k5 k6 k7)
           (UserContext_init u1 u2 u3 u4 u5 u6 u7 u8 u9 u10 u11)
           (Some ind) ci (Some lang) tz cr)"
  using build_cong [of b b'] build_full_chain
  by (simp add: build_def with_agent_name_def with_company_def with_personality_def
        with_call_context_def with_user_context_def with_industry_def
        with_custom_instructions_def with_language_def with_timezone_def
        with_compliance_requirements_def update_conv')

theorem builder_semantics_witness:
  "map_of [(S ''agent_name'', PStr (S ''Ana'')), (S ''industry'', PStr (S ''insurance''))]
     = map_of [(S ''industry'', PStr (S ''insurance'')), (S ''agent_name'', PStr (S ''Ana''))]
   \<and> build [(S ''agent_name'', PStr (S ''Ana'')), (S ''industry'', PStr (S ''insurance''))]
     = build [(S ''industry'', PStr (S ''insurance'')), (S ''agent_name'', PStr (S ''Ana''))]"
proof -
  have m: "map_of [(S ''agent_name'', PStr (S ''Ana'')), (S ''industry'', PStr (S ''insurance''))]
     = map_of [(S ''industry'', PStr (S ''insurance'')), (S ''agent_name'', PStr (S ''Ana''))]"
    by (rule ext) simp
  note builder_semantics
    [where b = "[(S ''agent_name'', PStr (S ''Ana'')), (S ''industry'', PStr (S ''insurance''))]"
       and b' = "[(S ''industry'', PStr (S ''insurance'')), (S ''agent_name'', PStr (S ''Ana''))]",
     THEN conjunct2, THEN conjunct1]
  with m show ?thesis by (intro conjI) (assumption, erule (1) mp)
qed


section \<open>Properties of the legacy adapter\<close>

lemma bind_err_Inr_iff: "bind_err m f = Inr y \<longleftrightarrow> (\<exists>x. m = Inr x \<and> f x = Inr y)"
  by (cases m) (simp_all add: bind_err_def)

lemma py_get_Inr_iff: "py_get v k d = Inr x \<longleftrightarrow> (\<exists>m. v = PDict m \<and> x = dict_get m k d)"
  by (cases v) auto

lemma absent_or_dict_iff:
  "absent_or_dict (map_of m k) \<longleftrightarrow> (\<exists>d. dict_get m k (PDict []) = PDict d)"
proof (cases "map_of m k")
  case None
  then show ?thesis by (simp add: dict_get_def)
next
  case (Some v)
  then show ?thesis by (cases v) (simp_all add: dict_get_def)
qed

lemma legacy_shape_iff:
  "legacy_shape md \<longleftrightarrow>
     (\<exists>a ud cdd apd. dict_get md (S ''agent_config'') (PDict []) = PDict a
        \<and> dict_get md (S ''user_details'') (PDict []) = PDict ud
        \<and> dict_get a (S ''company_details'') (PDict []) = PDict cdd
        \<and> dict_get a (S ''agent_personality'') (PDict []) = PDict apd)"
proof (cases "map_of md (S ''agent_config'')")
  case None
  then show ?thesis
    by (simp add: legacy_shape_def absent_or_dict_iff) (simp add: dict_get_def)
next
  case (Some v)
  then show ?thesis
    by (cases v) (auto simp add: legacy_shape_def absent_or_dict_iff dict_get_def)
qed

lemma legacy_result:
  assumes "dict_get md (S ''agent_config'') (PDict []) = PDict a"
    and "dict_get md (S ''user_details'') (PDict []) = PDict ud"
    and "dict_get a (S ''company_details'') (PDict []) = PDict cdd"
    and "dict_get a (S ''agent_personality'') (PDict []) = PDict apd"
  shows "AgentConfig_from_legacy_metadata (PDict md) = Inr (AgentConfig_init
        (dict_get a (S ''agent_name'') (PStr (S ''Professional Assistant'')))
        (CompanyDetails_init
           (dict_get a (S ''company_name'') (PStr (S ''Our Company'')))
           (dict_get cdd (S ''description'') PNone)
           (dict_get cdd (S ''specialties'') PNone)
           (dict_get cdd (S ''location'') PNone)
           (dict_get cdd (S ''years_in_business'') PNone)
           PNone PNone PNone PNone PNone)
        (AgentPersonality_init
           (dict_get apd (S ''traits'')
              (PList [PStr (S ''professional''), PStr (S ''friendly''), PStr (S ''consultative'')]))
           (dict_get apd (S ''communication_style'') (PStr (S ''warm and professional'')))
           PNone PNone PNone)
        (CallContext_init
           (dict_get md (S ''call_purpose'') (PStr (S ''general inquiry'')))
           PNone PNone PNone PNone PNone PNone)
        (UserContext_init
           (dict_get ud (S ''name'') PNone)
           (dict_get ud (S ''email'') PNone)
           (dict_get ud (S ''phone'') PNone)
           (dict_get ud (S ''preferences'') PNone)
           (dict_get ud (S ''previous_interactions'') PNone)
           (dict_get ud (S ''notes'') PNone)
           PNone PNone PNone PNone PNone)
        (Some (dict_get a (S ''industry'') (PStr (S ''real estate''))))
        (dict_get a (S ''custom_instructions'') PNone)
        None PNone PNone)"
  using assms by (simp add: Let_def bind_err_def)

lemma legacy_Inr_shape:
  assumes "AgentConfig_from_legacy_metadata (PDict md) = Inr c"
  shows "\<exists>a ud cdd apd. dict_get md (S ''agent_config'') (PDict []) = PDict a
        \<and> dict_get md (S ''user_details'') (PDict []) = PDict ud
        \<and> dict_get a (S ''company_details'') (PDict []) = PDict cdd
        \<and> dict_get a (S ''agent_personality'') (PDict []) = PDict apd"
proof -
  from assms obtain a where a: "dict_get md (S ''agent_config'') (PDict []) = PDict a"
    by (cases "dict_get md (S ''agent_config'') (PDict [])") (simp_all add: Let_def bind_err_def)
  from assms a obtain cdd where c: "dict_get a (S ''company_details'') (PDict []) = PDict cdd"
    by (cases "dict_get a (S ''company_details'') (PDict [])") (simp_all add: Let_def bind_err_def)
  from assms a c obtain apd where p: "dict_get a (S ''agent_personality'') (PDict []) = PDict apd"
    by (cases "dict_get a (S ''agent_personality'') (PDict [])") (simp_all add: Let_def bind_err_def)
  from assms a c p obtain ud where u: "dict_get md (S ''user_details'') (PDict []) = PDict ud"
    by (cases "dict_get md (S ''user_details'') (PDict [])") (simp_all add: Let_def bind_err_def)
  from a c p u show ?thesis by blast
qed

lemma legacy_returns_iff:
  "(\<exists>c. AgentConfig_from_legacy_metadata (PDict md) = Inr c) \<longleftrightarrow> legacy_shape md"
proof
  assume "\<exists>c. AgentConfig_from_legacy_metadata (PDict md) = Inr c"
  then show "legacy_shape md"
    unfolding legacy_shape_iff using legacy_Inr_shape by blast
next
  assume "legacy_shape md"
  then obtain a ud cdd apd where "dict_get md (S ''agent_config'') (PDict []) = PDict a"
    "dict_get md (S ''user_details'') (PDict []) = PDict ud"
    "dict_get a (S ''company_details'') (PDict []) = PDict cdd"
    "dict_get a (S ''agent_personality'') (PDict []) = PDict apd"
    unfolding legacy_shape_iff by blast
  from legacy_result [OF this] show "\<exists>c. AgentConfig_from_legacy_metadata (PDict md) = Inr c"
    by blast
qed

lemma dict_get_update_absent:
  "map_of md k = None \<Longrightarrow>
   dict_get (AList.update k (PDict []) md) k' d
     = (if k' = k then PDict [] else dict_get md k' d)"
  by (simp add: dict_get_def update_conv')

lemma dict_get_absent: "map_of md k = None \<Longrightarrow> dict_get md k d = d"
  by (simp add: dict_get_def)

lemma legacy_absent_agent_config:
  "map_of md (S ''agent_config'') = None \<Longrightarrow>
   AgentConfig_from_legacy_metadata (PDict (AList.update (S ''agent_config'') (PDict []) md))
     = AgentConfig_from_legacy_metadata (PDict md)"
  by (simp add: dict_get_update_absent dict_get_absent Let_def)

lemma legacy_absent_user_details:
  "map_of md (S ''user_details'') = None \<Longrightarrow>
   AgentConfig_from_legacy_metadata (PDict (AList.update (S ''user_details'') (PDict []) md))
     = AgentConfig_from_legacy_metadata (PDict md)"
  by (simp add: dict_get_update_absent dict_get_absent Let_def)

lemma legacy_empty:
  "\<exists>c. AgentConfig_from_legacy_metadata (PDict []) = Inr c
      \<and> agent_name c = PStr (S ''Professional Assistant'')
      \<and> CompanyDetails.name (company_details c) = PStr (S ''Our Company'')
      \<and> purpose (call_context c) = PStr (S ''general inquiry'')"
  by (simp add: bind_err_def dict_get_def Let_def AgentConfig_init_def CompanyDetails_init_def
        CallContext_init_def)

text \<open>
  Claim C2 as stated fails: in the metadata \<open>{"user_details": None}\<close> the key
  \<open>agent_config\<close> is absent, and \<open>from_legacy_metadata\<close> raises \<open>AttributeError\<close> at
  \<open>user_details.get("name")\<close>.
\<close>

theorem legacy_absent_but_malformed_counterexample:
  "map_of [(S ''user_details'', PNone)] (S ''agent_config'') = None
   \<and> AgentConfig_from_legacy_metadata (PDict [(S ''user_details'', PNone)]) = Inl AttributeError"
  by (simp add: bind_err_def dict_get_def Let_def)

text \<open>
  Claim C2, amended (legacy-adapter fallback).  \<open>from_legacy_metadata({})\<close> returns a
  configuration with agent name "Professional Assistant", company name "Our Company" and
  call purpose "general inquiry".  On any metadata mapping the adapter returns exactly when
  \<open>agent_config\<close>, \<open>user_details\<close> and, inside \<open>agent_config\<close>, \<open>company_details\<close> and
  \<open>agent_personality\<close> are each absent or a mapping; and an absent \<open>agent_config\<close> or
  \<open>user_details\<close> gives the same result as binding that key to \<open>{}\<close>.
\<close>

theorem legacy_fallback:
  "(\<exists>c. AgentConfig_from_legacy_metadata (PDict []) = Inr c
      \<and> agent_name c = PStr (S ''Professional Assistant'')
      \<and> CompanyDetails.name (company_details c) = PStr (S ''Our Company'')
      \<and> purpose (call_context c) = PStr (S ''general inquiry''))
   \<and> ((\<exists>c. AgentConfig_from_legacy_metadata (PDict md) = Inr c) \<longleftrightarrow> legacy_shape md)
   \<and> (map_of md (S ''agent_config'') = None \<longrightarrow>
        AgentConfig_from_legacy_metadata (PDict md)
          = AgentConfig_from_legacy_metadata (PDict (AList.update (S ''agent_config'') (PDict []) md)))
   \<and> (map_of md (S ''user_details'') = None \<longrightarrow>
        AgentConfig_from_legacy_metadata (PDict md)
          = AgentConfig_from_legacy_metadata (PDict (AList.update (S ''user_details'') (PDict []) md)))"
  using legacy_empty legacy_returns_iff [of md] legacy_absent_agent_config [of md]
    legacy_absent_user_details [of md]
  by simp

theorem legacy_fallback_witness:
  "legacy_shape [(S ''call_purpose'', PStr (S ''demo''))]
   \<and> map_of [(S ''call_purpose'', PStr (S ''demo''))] (S ''agent_config'') = None
   \<and> map_of [(S ''call_purpose'', PStr (S ''demo''))] (S ''user_details'') = None
   \<and> (\<exists>c. AgentConfig_from_legacy_metadata (PDict [(S ''call_purpose'', PStr (S ''demo''))]) = Inr c)
   \<and> AgentConfig_from_legacy_metadata (PDict [(S ''call_purpose'', PStr (S ''demo''))])
       = AgentConfig_from_legacy_metadata (PDict
           (AList.update (S ''agent_config'') (PDict []) [(S ''call_purpose'', PStr (S ''demo''))]))
   \<and> AgentConfig_from_legacy_metadata (PDict [(S ''call_purpose'', PStr (S ''demo''))])
       = AgentConfig_from_legacy_metadata (PDict
           (AList.update (S ''user_details'') (PDict []) [(S ''call_purpose'', PStr (S ''demo''))]))"
proof -
  let ?md = "[(S ''call_purpose'', PStr (S ''demo''))]"
  have shape: "legacy_shape ?md"
    by (simp add: legacy_shape_def)
  have no_agent: "map_of ?md (S ''agent_config'') = None"
    by simp
  have no_user: "map_of ?md (S ''user_details'') = None"
    by simp
  from legacy_fallback [of ?md] shape no_agent no_user show ?thesis
    by blast
qed

text \<open>
  Claim C10 (the legacy path pins the fields outside the legacy shape).  Whenever
  \<open>from_legacy_metadata\<close> returns a configuration, whatever keys the metadata holds, its
  call context has priority "normal", \<open>follow_up_required\<close> \<open>False\<close> and empty
  \<open>success_metrics\<close> and \<open>key_points\<close>; its language is "en", its timezone \<open>None\<close>, its
  compliance requirements empty; and its user context has empty \<open>demographics\<close>,
  \<open>pain_points\<close> and \<open>goals\<close> and no \<open>budget\<close> or \<open>timeline\<close>.
\<close>

theorem legacy_pins_non_legacy_fields:
  assumes "AgentConfig_from_legacy_metadata md = Inr c"
  shows "priority (call_context c) = PStr (S ''normal'')
       \<and> follow_up_required (call_context c) = PBool False
       \<and> success_metrics (call_context c) = PList []
       \<and> key_points (call_context c) = PList []
       \<and> language c = PStr (S ''en'')
       \<and> timezone c = PNone
       \<and> compliance_requirements c = PList []
       \<and> demographics (user_context c) = PDict []
       \<and> pain_points (user_context c) = PList []
       \<and> goals (user_context c) = PList []
       \<and> budget (user_context c) = PNone
       \<and> timeline (user_context c) = PNone"
proof (cases md)
  case (PDict d)
  with assms legacy_Inr_shape [of d c] obtain a ud cdd apd where
    "dict_get d (S ''agent_config'') (PDict []) = PDict a"
    "dict_get d (S ''user_details'') (PDict []) = PDict ud"
    "dict_get a (S ''company_details'') (PDict []) = PDict cdd"
    "dict_get a (S ''agent_personality'') (PDict []) = PDict apd"
    by blast
  from legacy_result [OF this] assms PDict show ?thesis
    by (auto simp: AgentConfig_init_def CallContext_init_def UserContext_init_def py_or_def)
qed (use assms in simp_all)

theorem legacy_pins_non_legacy_fields_witness:
  "\<exists>c. AgentConfig_from_legacy_metadata (PDict
          [ (S ''priority'', PStr (S ''high'')),
            (S ''language'', PStr (S ''fr'')),
            (S ''timezone'', PStr (S ''UTC'')),
            (S ''user_details'', PDict
               [ (S ''name'', PStr (S ''Bob'')),
                 (S ''budget'', PStr (S ''5'')),
                 (S ''goals'', PList [PStr (S ''g'')]) ]) ]) = Inr c
      \<and> UserContext.name (user_context c) = PStr (S ''Bob'')
      \<and> priority (call_context c) = PStr (S ''normal'')
      \<and> language c = PStr (S ''en'')
      \<and> timezone c = PNone
      \<and> goals (user_context c) = PList []
      \<and> budget (user_context c) = PNone"
proof -
  let ?md = "PDict
          [ (S ''priority'', PStr (S ''high'')),
            (S ''language'', PStr (S ''fr'')),
            (S ''timezone'', PStr (S ''UTC'')),
            (S ''user_details'', PDict
               [ (S ''name'', PStr (S ''Bob'')),
                 (S ''budget'', PStr (S ''5'')),
                 (S ''goals'', PList [PStr (S ''g'')]) ]) ]"
  obtain c where c: "AgentConfig_from_legacy_metadata ?md = Inr c"
    by (simp add: bind_err_def dict_get_def Let_def)
  then have n: "UserContext.name (user_context c) = PStr (S ''Bob'')"
    by (auto simp add: bind_err_def dict_get_def Let_def AgentConfig_init_def UserContext_init_def)
  from legacy_pins_non_legacy_fields [OF c] c n show ?thesis
    by blast
qed


section \<open>Properties of the prompt builder\<close>

subsection \<open>Stripping\<close>

lemma py_strip_core:
  assumes "\<forall>x\<in>set ws. is_space x" "\<not> is_space c" "\<not> is_space d" "\<forall>x\<in>set ws'. is_space x"
  shows "py_strip (ws @ c # mid @ d # ws') = c # mid @ [d]"
proof -
  have l: "dropWhile is_space (ws @ c # mid @ d # ws') = c # mid @ d # ws'"
    using assms(1,2) by simp
  have "dropWhile is_space (rev ws' @ (d # rev mid @ [c])) = dropWhile is_space (d # rev mid @ [c])"
    by (rule dropWhile_append2) (use assms(4) in auto)
  then have "dropWhile is_space (rev (c # mid @ d # ws')) = d # rev mid @ [c]"
    using assms(3) by simp
  with l show ?thesis by (simp add: py_strip_def)
qed

lemma rstrip_keeps:
  assumes "x \<in> set b" "\<not> is_space x"
  shows "\<exists>b'. rev (dropWhile is_space (rev (a @ b))) = a @ b'"
proof -
  have "dropWhile is_space (rev b @ rev a) = dropWhile is_space (rev b) @ rev a"
    using assms by (intro dropWhile_append1[of x]) auto
  then show ?thesis by simp
qed

lemma tpl_0_split: "tpl_0 = (10 # S ''            '') @ S ''You are ''"
  by (simp add: tpl_0_def)

lemma tpl_11_split: "tpl_11 = take 1262 tpl_11 @ 46 # 10 # 10 # S ''            ''"
proof -
  have "drop 1262 tpl_11 = 46 # 10 # 10 # S ''            ''"
    by (simp add: tpl_11_def)
  then show ?thesis by (metis append_take_drop_id)
qed

lemma scenario_struct:
  "build_prompt L scenario_config = Inr (py_strip
     (tpl_0 @ S ''Ana'' @ tpl_1 @ S ''x, y'' @ tpl_2 @ S ''insurance'' @ tpl_3 @ S ''Acme''
      @ tpl_4 @ S ''Company Specialties: a, b'' @ tpl_5 @ S ''Client Name: Bob''
      @ tpl_6 @ S ''intro call'' @ tpl_7 @ S ''calm'' @ tpl_8 @ S ''x and y''
      @ tpl_9 @ knowledge_insurance @ tpl_10 @ S ''insurance'' @ tpl_11 @ tpl_12))"
  by (simp add: build_prompt_def scenario_config_def AgentConfig_init_def CompanyDetails_init_def
     AgentPersonality_init_def CallContext_init_def UserContext_init_def py_or_def bind_err_def
     company_info_parts_def user_info_parts_def knowledge_map_def replace_char_def Let_def
     append_if_def append_joined_if_def)


lemma scenario_flat:
  "S ''You are Ana'' @ tpl_1 @ S ''x, y'' @ tpl_2 @ S ''insurance'' @ tpl_3 @ S ''Acme''
   @ tpl_4 @ S ''Company Specialties: a, b'' @ tpl_5 @ S ''Client Name: Bob'' @ tpl_6 @ S ''intro call''
   @ tpl_7 @ S ''calm'' @ tpl_8 @ S ''x and y'' @ tpl_9 @ knowledge_insurance @ tpl_10 @ S ''insurance''
   @ take 1263 tpl_11 = scenario_prompt"
  by (simp add: scenario_prompt_def knowledge_insurance_def
     tpl_1_def tpl_2_def tpl_3_def tpl_4_def tpl_5_def tpl_6_def tpl_7_def tpl_8_def
     tpl_9_def tpl_10_def tpl_11_def)

lemma take_tpl_11: "take 1263 tpl_11 = take 1262 tpl_11 @ [46]"
proof -
  have "length tpl_11 = 1277" by (simp add: tpl_11_def)
  moreover have "tpl_11 ! 1262 = 46" by (simp add: tpl_11_def)
  ultimately show ?thesis
    using take_Suc_conv_app_nth [of 1262 tpl_11] by simp
qed

lemma scenario_eval: "build_prompt L scenario_config = Inr scenario_prompt"
proof -
  let ?mid = "S ''ou are '' @ S ''Ana'' @ tpl_1 @ S ''x, y'' @ tpl_2 @ S ''insurance'' @ tpl_3 @ S ''Acme''
      @ tpl_4 @ S ''Company Specialties: a, b'' @ tpl_5 @ S ''Client Name: Bob''
      @ tpl_6 @ S ''intro call'' @ tpl_7 @ S ''calm'' @ tpl_8 @ S ''x and y''
      @ tpl_9 @ knowledge_insurance @ tpl_10 @ S ''insurance'' @ take 1262 tpl_11"
  have "tpl_0 @ S ''Ana'' @ tpl_1 @ S ''x, y'' @ tpl_2 @ S ''insurance'' @ tpl_3 @ S ''Acme''
      @ tpl_4 @ S ''Company Specialties: a, b'' @ tpl_5 @ S ''Client Name: Bob''
      @ tpl_6 @ S ''intro call'' @ tpl_7 @ S ''calm'' @ tpl_8 @ S ''x and y''
      @ tpl_9 @ knowledge_insurance @ tpl_10 @ S ''insurance'' @ tpl_11 @ tpl_12
     = (10 # S ''            '') @ 89 # ?mid @ 46 # (10 # 10 # S ''            '' @ tpl_12)"
    by (subst tpl_11_split, subst tpl_0_split) simp
  moreover have "py_strip ((10 # S ''            '') @ 89 # ?mid @ 46 # (10 # 10 # S ''            '' @ tpl_12))
     = 89 # ?mid @ [46]"
    by (rule py_strip_core) (simp_all add: is_space_def tpl_12_def)
  moreover have "89 # ?mid @ [46] = scenario_prompt"
    unfolding scenario_flat [symmetric] take_tpl_11 by simp
  ultimately show ?thesis
    by (simp only: scenario_struct)
qed

subsection \<open>Order of the scenario's substrings\<close>

lemma in_order_ConsI: "t = a @ p @ b \<Longrightarrow> in_order ps b \<Longrightarrow> in_order (p # ps) t"
  by auto

lemma no_order:
  assumes t: "t = pre @ c # post" and c: "c \<notin> set post" and d: "d \<notin> set pre"
  shows "t \<noteq> U @ d # V @ c # W"
proof
  assume "t = U @ d # V @ c # W"
  with t have "pre @ c # post = (U @ d # V) @ c # W"
    by simp
  then obtain us where
    "(pre = (U @ d # V) @ us \<and> us @ c # post = c # W) \<or> (pre @ us = U @ d # V \<and> c # post = us @ c # W)"
    by (auto simp only: append_eq_append_conv2)
  then show False
  proof
    assume "pre = (U @ d # V) @ us \<and> us @ c # post = c # W"
    then have "d \<in> set pre" by simp
    with d show False by simp
  next
    assume a: "pre @ us = U @ d # V \<and> c # post = us @ c # W"
    show False
    proof (cases us)
      case Nil
      with a have "d \<in> set pre" by simp
      with d show False by simp
    next
      case (Cons u us')
      with a have "post = us' @ c # W" by simp
      then have "c \<in> set post" by simp
      with c show False by simp
    qed
  qed
qed

lemma scenario_split_B:
  "scenario_prompt =
     (S ''You are Ana'' @ tpl_1 @ S ''x, y'' @ tpl_2 @ S ''insurance'' @ tpl_3 @ S ''Acme''
       @ tpl_4 @ S ''Company Specialties: a, b'' @ tpl_5 @ S ''Client Name: '')
     @ 66 # (S ''ob'' @ tpl_6 @ S ''intro call'' @ tpl_7 @ S ''calm'' @ tpl_8 @ S ''x and y''
       @ tpl_9 @ knowledge_insurance @ tpl_10 @ S ''insurance'' @ take 1263 tpl_11)"
  unfolding scenario_flat [symmetric] by simp

lemma no_P_before:
  "80 \<notin> set (S ''You are Ana'' @ tpl_1 @ S ''x, y'' @ tpl_2 @ S ''insurance'' @ tpl_3 @ S ''Acme''
       @ tpl_4 @ S ''Company Specialties: a, b'' @ tpl_5 @ S ''Client Name: '')"
  by (simp add: tpl_1_def tpl_2_def tpl_3_def tpl_4_def tpl_5_def)

lemma no_B_10: "66 \<notin> set tpl_6 \<and> 66 \<notin> set tpl_7 \<and> 66 \<notin> set tpl_8 \<and> 66 \<notin> set tpl_9 \<and> 66 \<notin> set tpl_10"
  by (simp add: tpl_6_def tpl_7_def tpl_8_def tpl_9_def tpl_10_def)

lemma no_B_ins: "66 \<notin> set knowledge_insurance"
  by (simp add: knowledge_insurance_def)

lemma no_B_11: "66 \<notin> set (take 1263 tpl_11)"
  by (simp add: tpl_11_def)

lemma no_B_after:
  "66 \<notin> set (S ''ob'' @ tpl_6 @ S ''intro call'' @ tpl_7 @ S ''calm'' @ tpl_8 @ S ''x and y''
       @ tpl_9 @ knowledge_insurance @ tpl_10 @ S ''insurance'' @ take 1263 tpl_11)"
  using no_B_10 no_B_ins no_B_11 by simp

lemma scenario_not_claimed_order:
  "\<not> in_order [S ''You are Ana'', S ''Company Specialties: a, b'', S ''Call Purpose: intro call'',
       S ''Client Name: Bob'', knowledge_insurance] scenario_prompt"
proof
  assume "in_order [S ''You are Ana'', S ''Company Specialties: a, b'', S ''Call Purpose: intro call'',
       S ''Client Name: Bob'', knowledge_insurance] scenario_prompt"
  then obtain a1 a2 a3 a4 b4 where
    "scenario_prompt = a1 @ S ''You are Ana'' @ a2 @ S ''Company Specialties: a, b''
        @ a3 @ S ''Call Purpose: intro call'' @ a4 @ S ''Client Name: Bob'' @ b4"
    by auto
  then have "scenario_prompt =
      (a1 @ S ''You are Ana'' @ a2 @ S ''Company Specialties: a, b'' @ a3 @ S ''Call '')
      @ 80 # (S ''urpose: intro call'' @ a4 @ S ''Client Name: '') @ 66 # (S ''ob'' @ b4)"
    by simp
  with no_order [OF scenario_split_B no_B_after no_P_before] show False
    by blast
qed

lemma tpl_4_to_6:
  "tpl_6 = (10 # 10 # S ''            '') @ S ''Call Purpose: ''"
  by (simp add: tpl_6_def)

lemma scenario_code_order:
  "in_order [S ''You are Ana'', S ''Company Specialties: a, b'', S ''Client Name: Bob'',
       S ''Call Purpose: intro call'', knowledge_insurance] scenario_prompt"
proof -
  let ?b5 = "tpl_10 @ S ''insurance'' @ take 1263 tpl_11"
  let ?b4 = "(tpl_7 @ S ''calm'' @ tpl_8 @ S ''x and y'' @ tpl_9) @ knowledge_insurance @ ?b5"
  let ?b3 = "(10 # 10 # S ''            '') @ S ''Call Purpose: intro call'' @ ?b4"
  let ?b2 = "tpl_5 @ S ''Client Name: Bob'' @ ?b3"
  let ?b1 = "(tpl_1 @ S ''x, y'' @ tpl_2 @ S ''insurance'' @ tpl_3 @ S ''Acme'' @ tpl_4)
               @ S ''Company Specialties: a, b'' @ ?b2"
  have 5: "in_order [knowledge_insurance] ?b4"
    by (rule in_order_ConsI [OF refl]) simp
  have 4: "in_order [S ''Call Purpose: intro call'', knowledge_insurance] ?b3"
    by (rule in_order_ConsI [OF refl 5])
  have 3: "in_order [S ''Client Name: Bob'', S ''Call Purpose: intro call'', knowledge_insurance] ?b2"
    by (rule in_order_ConsI [OF refl 4])
  have 2: "in_order [S ''Company Specialties: a, b'', S ''Client Name: Bob'',
       S ''Call Purpose: intro call'', knowledge_insurance] ?b1"
    by (rule in_order_ConsI [OF refl 3])
  have "scenario_prompt = [] @ S ''You are Ana'' @ ?b1"
    unfolding scenario_flat [symmetric] tpl_4_to_6 by simp
  from in_order_ConsI [OF this 2] show ?thesis .
qed

text \<open>
  Claim C4 as stated fails: the scenario's prompt holds "Client Name: Bob" (from the user
  block) before "Call Purpose: intro call", and neither occurs a second time, so the five
  strings do not occur in the order in which the claim lists them.
\<close>

theorem scenario_claimed_order_counterexample:
  "build_prompt no_render scenario_config = Inr scenario_prompt
   \<and> \<not> in_order [S ''You are Ana'', S ''Company Specialties: a, b'', S ''Call Purpose: intro call'',
         S ''Client Name: Bob'', knowledge_insurance] scenario_prompt"
  using scenario_eval scenario_not_claimed_order by simp

text \<open>
  Claim C4, amended (end-to-end scenario).  For the scenario's configuration
  \<open>build_prompt\<close> returns the text \<open>scenario_prompt\<close>, which contains "You are Ana",
  "Company Specialties: a, b", "Client Name: Bob", "Call Purpose: intro call" and the
  insurance knowledge paragraph, in this order.
\<close>

theorem scenario_substrings_in_order:
  "build_prompt L scenario_config = Inr scenario_prompt
   \<and> in_order [S ''You are Ana'', S ''Company Specialties: a, b'', S ''Client Name: Bob'',
         S ''Call Purpose: intro call'', knowledge_insurance] scenario_prompt"
  using scenario_eval scenario_code_order by simp

text \<open>
  Claim C7 (industry knowledge selection).  For an industry string the knowledge block is
  the table's entry for exactly that string: "real estate", "insurance",
  "financial services" and "healthcare" select their own paragraph and every other string
  selects the default paragraph; in particular "unknown-sector" gives the default paragraph
  and "insurance" the insurance paragraph, each as written in the table.
\<close>

theorem industry_knowledge_selection:
  "get_industry_knowledge (PStr s) = Inr
     (if s = S ''real estate'' then knowledge_real_estate
      else if s = S ''insurance'' then knowledge_insurance
      else if s = S ''financial services'' then knowledge_financial_services
      else if s = S ''healthcare'' then knowledge_healthcare
      else knowledge_default)
   \<and> get_industry_knowledge (PStr (S ''unknown-sector'')) = Inr knowledge_default
   \<and> get_industry_knowledge (PStr (S ''insurance'')) = Inr knowledge_insurance"
  by (simp add: knowledge_map_def)


subsection \<open>The company block and the user block\<close>

lemma append_if_conv: "append_if c l ps = ps @ (if c then [l] else [])"
  by (simp add: append_if_def)

lemma append_joined_if_Inr:
  "append_joined_if v label ps = Inr qs \<Longrightarrow>
     qs = ps @ (if truthy v then [label @ joined v] else [])"
  by (auto simp: append_joined_if_def joined_def bind_err_Inr_iff split: if_splits)

lemma py_join_str_list: "str_list_or_none v \<Longrightarrow> truthy v \<Longrightarrow> \<exists>s. py_join sep v = Inr s"
  by (cases v) auto

lemma append_joined_if_returns:
  "str_list_or_none v \<Longrightarrow> \<exists>qs. append_joined_if v label ps = Inr qs"
  using py_join_str_list [of v "S '', ''"]
  by (auto simp: append_joined_if_def bind_err_def)

lemma company_info_parts_spec:
  assumes "company_info_parts L c = Inr ps"
  shows "ps = company_lines_spec L c"
proof -
  from assms obtain qs where
    q: "append_joined_if (specialties c) (S ''Company Specialties: '')
          ([] @ (if truthy (description c)
                 then [S ''Company Description: '' @ py_str L (description c)] else [])) = Inr qs"
    and p: "append_joined_if (company_values c) (S ''Company Values: '')
          (((qs @ (if truthy (location c) then [S ''Service Area: '' @ py_str L (location c)] else []))
             @ (if truthy (years_in_business c)
                then [S ''Experience: '' @ py_str L (years_in_business c) @ S '' years in business'']
                else []))
             @ (if truthy (mission_statement c)
                then [S ''Mission: '' @ py_str L (mission_statement c)] else [])) = Inr ps"
    unfolding company_info_parts_def Let_def append_if_conv bind_err_Inr_iff by blast
  show ?thesis
    unfolding append_joined_if_Inr [OF p] append_joined_if_Inr [OF q]
    by (simp add: company_lines_spec_def)
qed

lemma company_info_parts_returns:
  assumes "str_list_or_none (specialties c)" "str_list_or_none (company_values c)"
  shows "\<exists>ps. company_info_parts L c = Inr ps"
proof -
  from append_joined_if_returns [OF assms(1)] obtain qs where
    "append_joined_if (specialties c) (S ''Company Specialties: '')
       (append_if (truthy (description c))
          (S ''Company Description: '' @ py_str L (description c)) []) = Inr qs"
    by blast
  with append_joined_if_returns [OF assms(2)] show ?thesis
    by (simp add: company_info_parts_def Let_def bind_err_def)
qed

lemma join_if_nonempty: "(if ps \<noteq> [] then join_str sep ps else []) = join_str sep ps"
  by simp

lemma format_company_info_spec:
  "format_company_info L (Some c) = Inr block \<Longrightarrow> block = join_str [10] (company_lines_spec L c)"
  by (auto simp: bind_err_Inr_iff dest: company_info_parts_spec)


lemma lstrip_tpl_0: "dropWhile is_space (tpl_0 @ z) = S ''You are '' @ z"
  by (simp add: tpl_0_def is_space_def)

lemma C_in_tpl_6: "67 \<in> set tpl_6"
  by (simp add: tpl_6_def)

lemma build_prompt_embeds:
  assumes "build_prompt L c = Inr p"
  shows "\<exists>ci ui pre mid post.
           format_company_info L (Some (company_details c)) = Inr ci
         \<and> format_user_info L (Some (user_context c)) = Inr ui
         \<and> p = pre @ ci @ mid @ ui @ post"
proof -
  from assms obtain ps ci ui ik where
    ci: "format_company_info L (Some (company_details c)) = Inr ci" and
    ui: "format_user_info L (Some (user_context c)) = Inr ui" and
    p: "Inr (py_strip
        (tpl_0 @ py_str L (agent_name c)
         @ tpl_1 @ ps
         @ tpl_2 @ py_str L (industry c)
         @ tpl_3 @ py_str L (CompanyDetails.name (company_details c))
         @ tpl_4 @ ci
         @ tpl_5 @ ui
         @ tpl_6 @ py_str L (purpose (call_context c))
         @ tpl_7 @ py_str L (communication_style (agent_personality c))
         @ tpl_8 @ replace_char 44 (S '' and'') ps
         @ tpl_9 @ ik
         @ tpl_10 @ py_str L (industry c)
         @ tpl_11 @ py_str L (py_or (custom_instructions c) (PStr []))
         @ tpl_12)) = (Inr p :: pyerr + pystr)"
    unfolding build_prompt_def Let_def bind_err_Inr_iff by blast
  let ?pre = "S ''You are '' @ py_str L (agent_name c) @ tpl_1 @ ps @ tpl_2 @ py_str L (industry c)
         @ tpl_3 @ py_str L (CompanyDetails.name (company_details c)) @ tpl_4"
  let ?rest = "py_str L (purpose (call_context c))
         @ tpl_7 @ py_str L (communication_style (agent_personality c))
         @ tpl_8 @ replace_char 44 (S '' and'') ps
         @ tpl_9 @ ik
         @ tpl_10 @ py_str L (industry c)
         @ tpl_11 @ py_str L (py_or (custom_instructions c) (PStr []))
         @ tpl_12"
  from p have "p = rev (dropWhile is_space (rev ((?pre @ ci @ tpl_5 @ ui) @ (tpl_6 @ ?rest))))"
    unfolding py_strip_def lstrip_tpl_0 by (simp only: sum.inject append_assoc)
  moreover have "\<not> is_space 67"
    by (simp add: is_space_def)
  moreover have "67 \<in> set (tpl_6 @ ?rest)"
    using C_in_tpl_6 by simp
  ultimately obtain b' where "p = (?pre @ ci @ tpl_5 @ ui) @ b'"
    using rstrip_keeps [of 67 "tpl_6 @ ?rest" "?pre @ ci @ tpl_5 @ ui"] by auto
  then have "p = ?pre @ ci @ tpl_5 @ ui @ b'"
    by simp
  with ci ui show ?thesis by blast
qed

lemma experience_lines:
  "filter (prefix (S ''Experience: '')) (company_lines_spec L c) =
     (if truthy (years_in_business c)
      then [S ''Experience: '' @ py_str L (years_in_business c) @ S '' years in business'']
      else [])"
  by (simp add: company_lines_spec_def)

lemma user_info_parts_shape:
  assumes "user_info_parts L u = Inr ps"
  shows "ps =
     (((((((([] @ (if truthy (UserContext.name u)
                   then [S ''Client Name: '' @ py_str L (UserContext.name u)] else []))
        @ (if truthy (UserContext.email u)
           then [S ''Client Email: '' @ py_str L (UserContext.email u)] else []))
        @ (if truthy (UserContext.phone u)
           then [S ''Client Phone: '' @ py_str L (UserContext.phone u)] else []))
        @ (if truthy (preferences u)
           then [S ''Client Preferences: '' @ json_dumps L (preferences u)] else []))
        @ (if truthy (previous_interactions u)
           then [S ''Previous Interactions: '' @ json_dumps L (previous_interactions u)] else []))
        @ (if truthy (user_notes u)
           then [S ''Additional Notes: '' @ py_str L (user_notes u)] else []))
        @ (if truthy (goals u) then [S ''Client Goals: '' @ joined (goals u)] else []))
        @ (if truthy (budget u) then [S ''Budget: '' @ py_str L (budget u)] else []))
        @ (if truthy (timeline u) then [S ''Timeline: '' @ py_str L (timeline u)] else [])"
proof -
  from assms obtain qs where
    q: "append_joined_if (goals u) (S ''Client Goals: '')
        (((((([] @ (if truthy (UserContext.name u)
                   then [S ''Client Name: '' @ py_str L (UserContext.name u)] else []))
        @ (if truthy (UserContext.email u)
           then [S ''Client Email: '' @ py_str L (UserContext.email u)] else []))
        @ (if truthy (UserContext.phone u)
           then [S ''Client Phone: '' @ py_str L (UserContext.phone u)] else []))
        @ (if truthy (preferences u)
           then [S ''Client Preferences: '' @ json_dumps L (preferences u)] else []))
        @ (if truthy (previous_interactions u)
           then [S ''Previous Interactions: '' @ json_dumps L (previous_interactions u)] else []))
        @ (if truthy (user_notes u)
           then [S ''Additional Notes: '' @ py_str L (user_notes u)] else [])) = Inr qs"
    and p: "Inr ((qs @ (if truthy (budget u) then [S ''Budget: '' @ py_str L (budget u)] else []))
        @ (if truthy (timeline u) then [S ''Timeline: '' @ py_str L (timeline u)] else []))
          = (Inr ps :: pyerr + pystr list)"
    unfolding user_info_parts_def Let_def append_if_conv bind_err_Inr_iff by blast
  from p show ?thesis
    unfolding append_joined_if_Inr [OF q] by (simp only: sum.inject)
qed

lemma format_user_info_parts:
  "format_user_info L (Some u) = Inr ui \<Longrightarrow>
     \<exists>ps. user_info_parts L u = Inr ps \<and> ui = join_str [10] ps"
  by (auto simp: bind_err_Inr_iff)

text \<open>
  Claim C6 as stated fails: a company whose \<open>years_in_business\<close> is present and equal to
  \<open>0\<close> gets no "Experience" line; its block is the description line alone.  The code
  tests \<open>if company_details.years_in_business\<close>, and \<open>0\<close> is false.
\<close>

theorem zero_years_not_rendered_counterexample:
  "years_in_business zero_years_company = PInt 0
   \<and> format_company_info no_render (Some zero_years_company)
       = Inr (S ''Company Description: New agency'')"
  by (simp add: zero_years_company_def CompanyDetails_init_def company_info_parts_def
        append_if_def append_joined_if_def py_or_def bind_err_def Let_def)

text \<open>
  Claim C6, amended (company block rendering).  Whenever \<open>_format_company_info\<close> returns,
  and it does when \<open>specialties\<close> and \<open>values\<close> are lists of strings or \<open>None\<close>, the
  block is the line-break join of \<open>company_lines_spec\<close>: one labelled line for each of
  description, specialties (joined), location, years in business, mission statement and
  values (joined) that is true in Python's sense (not \<open>None\<close>, not empty, not \<open>0\<close>), in that
  order, and no line for the others; the prompt contains this block.  In particular there
  is exactly one "Experience" line when \<open>years_in_business\<close> is true, and none when it is
  \<open>None\<close> or \<open>0\<close>.
\<close>

theorem company_block_rendering:
  "(format_company_info L (Some c) = Inr block \<longrightarrow> block = join_str [10] (company_lines_spec L c))
   \<and> (str_list_or_none (specialties c) \<and> str_list_or_none (company_values c) \<longrightarrow>
        (\<exists>b. format_company_info L (Some c) = Inr b))
   \<and> (build_prompt L cfg = Inr p \<longrightarrow>
        (\<exists>pre post. p = pre @ join_str [10] (company_lines_spec L (company_details cfg)) @ post))
   \<and> filter (prefix (S ''Experience: '')) (company_lines_spec L c) =
        (if truthy (years_in_business c)
         then [S ''Experience: '' @ py_str L (years_in_business c) @ S '' years in business'']
         else [])
   \<and> (years_in_business c = PNone \<or> years_in_business c = PInt 0 \<longrightarrow>
        filter (prefix (S ''Experience: '')) (company_lines_spec L c) = [])"
proof (intro conjI impI)
  assume "format_company_info L (Some c) = Inr block"
  then show "block = join_str [10] (company_lines_spec L c)"
    by (rule format_company_info_spec)
next
  assume "str_list_or_none (specialties c) \<and> str_list_or_none (company_values c)"
  then obtain ps where "company_info_parts L c = Inr ps"
    using company_info_parts_returns by blast
  then show "\<exists>b. format_company_info L (Some c) = Inr b"
    by (simp add: bind_err_def)
next
  assume "build_prompt L cfg = Inr p"
  from build_prompt_embeds [OF this] obtain ci ui pre mid post where
    "format_company_info L (Some (company_details cfg)) = Inr ci" and "p = pre @ ci @ mid @ ui @ post"
    by blast
  with format_company_info_spec [of L "company_details cfg" ci]
  show "\<exists>pre post. p = pre @ join_str [10] (company_lines_spec L (company_details cfg)) @ post"
    by blast
next
  show "filter (prefix (S ''Experience: '')) (company_lines_spec L c) =
        (if truthy (years_in_business c)
         then [S ''Experience: '' @ py_str L (years_in_business c) @ S '' years in business'']
         else [])"
    by (rule experience_lines)
next
  assume "years_in_business c = PNone \<or> years_in_business c = PInt 0"
  then have "\<not> truthy (years_in_business c)"
    by auto
  then show "filter (prefix (S ''Experience: '')) (company_lines_spec L c) = []"
    by (simp only: experience_lines if_False)
qed

theorem company_block_rendering_witness:
  "format_company_info no_render (Some example_company)
     = Inr (S ''Company Description: Family business'' @ 10 # S ''Company Specialties: a, b''
            @ 10 # S ''Experience: 15 years in business'')
   \<and> join_str [10] (company_lines_spec no_render example_company)
     = S ''Company Description: Family business'' @ 10 # S ''Company Specialties: a, b''
            @ 10 # S ''Experience: 15 years in business''
   \<and> years_in_business zero_years_company = PInt 0
   \<and> filter (prefix (S ''Experience: '')) (company_lines_spec no_render zero_years_company) = []
   \<and> build_prompt no_render scenario_config = Inr scenario_prompt
   \<and> (\<exists>pre post. scenario_prompt
          = pre @ join_str [10] (company_lines_spec no_render (company_details scenario_config)) @ post)"
proof -
  have block: "format_company_info no_render (Some example_company)
     = Inr (S ''Company Description: Family business'' @ 10 # S ''Company Specialties: a, b''
            @ 10 # S ''Experience: 15 years in business'')"
    by (simp add: example_company_def CompanyDetails_init_def company_info_parts_def
        append_if_def append_joined_if_def py_or_def bind_err_def Let_def str_int_def str_nat.simps)
  have zero: "years_in_business zero_years_company = PInt 0"
    by (simp add: zero_years_company_def CompanyDetails_init_def)
  note a = company_block_rendering [of no_render example_company
      "S ''Company Description: Family business'' @ 10 # S ''Company Specialties: a, b''
            @ 10 # S ''Experience: 15 years in business''" scenario_config scenario_prompt]
  note b = company_block_rendering [of no_render zero_years_company "[]" scenario_config scenario_prompt]
  from a [THEN conjunct1] block
  have j: "join_str [10] (company_lines_spec no_render example_company)
     = S ''Company Description: Family business'' @ 10 # S ''Company Specialties: a, b''
            @ 10 # S ''Experience: 15 years in business''"
    by (rule mp [THEN sym])
  from b [THEN conjunct2, THEN conjunct2, THEN conjunct2, THEN conjunct2] zero
  have z: "filter (prefix (S ''Experience: '')) (company_lines_spec no_render zero_years_company) = []"
    by blast
  from a [THEN conjunct2, THEN conjunct2, THEN conjunct1] scenario_eval [of no_render]
  have e: "\<exists>pre post. scenario_prompt
          = pre @ join_str [10] (company_lines_spec no_render (company_details scenario_config)) @ post"
    by (rule mp)
  from block j zero z scenario_eval [of no_render] e show ?thesis
    by (intro conjI)
qed


subsection \<open>Lines of a text\<close>

lemma py_lines_nonempty: "py_lines t \<noteq> []"
  by (induction t) (auto split: list.splits)

lemma py_lines_append_nl: "py_lines (a @ 10 # b) = py_lines a @ py_lines b"
proof (induction a)
  case Nil
  then show ?case by simp
next
  case (Cons c a)
  then show ?case
    using py_lines_nonempty [of a] by (auto split: list.splits)
qed

lemma py_lines_one: "10 \<notin> set a \<Longrightarrow> py_lines a = [a]"
  by (induction a) auto

lemma py_lines_append_one:
  "10 \<notin> set a \<Longrightarrow> py_lines (a @ b) = (a @ hd (py_lines b)) # tl (py_lines b)"
proof (induction a)
  case Nil
  then show ?case using py_lines_nonempty [of b] by simp
next
  case (Cons c a)
  then show ?case by simp
qed

lemma py_lines_join:
  "ls \<noteq> [] \<Longrightarrow> \<forall>l\<in>set ls. 10 \<notin> set l \<Longrightarrow> py_lines (join_str [10] ls) = ls"
proof (induction "[10::nat]" ls rule: join_str.induct)
  case 1
  then show ?case by simp
next
  case (2 x)
  then show ?case by (simp add: py_lines_one)
next
  case (3 x y ys)
  then show ?case by (simp add: py_lines_append_nl py_lines_one)
qed

lemma set_py_lines: "l \<in> set (py_lines t) \<Longrightarrow> set l \<subseteq> set t"
proof (induction t arbitrary: l)
  case Nil
  then show ?case by simp
next
  case (Cons c t)
  show ?case
  proof (cases "c = 10")
    case True
    with Cons show ?thesis by auto
  next
    case False
    obtain k ks where k: "py_lines t = k # ks"
      using py_lines_nonempty [of t] by (cases "py_lines t") auto
    with False Cons.prems have "l = c # k \<or> l \<in> set ks" by simp
    then show ?thesis
    proof
      assume "l = c # k"
      moreover have "set k \<subseteq> set t" using Cons.IH [of k] k by simp
      ultimately show ?thesis by auto
    next
      assume "l \<in> set ks"
      then have "set l \<subseteq> set t" using Cons.IH [of l] k by simp
      then show ?thesis by auto
    qed
  qed
qed

lemma budget_line_has_B: "is_budget_line l \<Longrightarrow> 66 \<in> set l"
proof -
  assume "is_budget_line l"
  then obtain r where "dropWhile is_space l = S ''Budget:'' @ r"
    by (auto simp: is_budget_line_def prefix_def)
  then have "66 \<in> set (dropWhile is_space l)" by simp
  then show ?thesis using set_dropWhileD by fastforce
qed

lemma no_B_no_budget_line: "66 \<notin> set t \<Longrightarrow> filter is_budget_line (py_lines t) = []"
  using set_py_lines budget_line_has_B by (fastforce simp: filter_empty_conv)

lemma budget_line_indent:
  "\<forall>x\<in>set ws. is_space x \<Longrightarrow> is_budget_line (ws @ l) = is_budget_line l"
  by (simp add: is_budget_line_def)

lemma budget_line_extend: "is_budget_line l \<Longrightarrow> prefix l l' \<Longrightarrow> is_budget_line l'"
proof -
  assume b: "is_budget_line l" and p: "prefix l l'"
  from p obtain s where s: "l' = l @ s" by (auto simp: prefix_def)
  have "\<exists>x\<in>set l. \<not> is_space x"
  proof (rule ccontr)
    assume "\<not> (\<exists>x\<in>set l. \<not> is_space x)"
    then have "dropWhile is_space l = []" by simp
    with b show False by (simp add: is_budget_line_def)
  qed
  then obtain x where "x \<in> set l" "\<not> is_space x"
    by blast
  then have "dropWhile is_space (l @ s) = dropWhile is_space l @ s"
    by (rule dropWhile_append1)
  with b s show ?thesis
    by (auto simp: is_budget_line_def prefix_def)
qed

lemma py_lines_append:
  "py_lines (a @ s) =
     butlast (py_lines a) @ (last (py_lines a) @ hd (py_lines s)) # tl (py_lines s)"
proof (induction a)
  case Nil
  then show ?case using py_lines_nonempty [of s] by simp
next
  case (Cons c a)
  obtain k ks where k: "py_lines a = k # ks"
    using py_lines_nonempty [of a] by (cases "py_lines a") auto
  show ?case
  proof (cases "c = 10")
    case True
    with Cons k show ?thesis by simp
  next
    case False
    with Cons k show ?thesis by (cases ks) simp_all
  qed
qed

lemma py_lines_prefix:
  assumes "prefix a t" and "l \<in> set (py_lines a)"
  shows "\<exists>l'\<in>set (py_lines t). prefix l l'"
proof -
  from assms(1) obtain s where t: "t = a @ s" by (auto simp: prefix_def)
  have "py_lines a = butlast (py_lines a) @ [last (py_lines a)]"
    using py_lines_nonempty [of a] by simp
  with assms(2) have "l \<in> set (butlast (py_lines a)) \<or> l = last (py_lines a)"
    by (metis Un_iff empty_iff insert_iff list.set(1) list.set(2) set_append)
  then show ?thesis
  proof
    assume "l \<in> set (butlast (py_lines a))"
    then have "l \<in> set (py_lines t)"
      unfolding t py_lines_append by simp
    then show ?thesis by auto
  next
    assume "l = last (py_lines a)"
    then have "l @ hd (py_lines s) \<in> set (py_lines t)"
      unfolding t py_lines_append by simp
    then show ?thesis by (meson prefixI)
  qed
qed

lemma no_budget_line_prefix:
  assumes "prefix a t" and "filter is_budget_line (py_lines t) = []"
  shows "filter is_budget_line (py_lines a) = []"
proof -
  have "\<not> is_budget_line l" if "l \<in> set (py_lines a)" for l
  proof
    assume b: "is_budget_line l"
    from py_lines_prefix [OF assms(1) that] obtain l' where
      "l' \<in> set (py_lines t)" "prefix l l'" by blast
    with b budget_line_extend have "l' \<in> set (py_lines t) \<and> is_budget_line l'" by blast
    with assms(2) show False by (auto simp: filter_empty_conv)
  qed
  then show ?thesis by (auto simp: filter_empty_conv)
qed

lemma py_rstrip_prefix: "prefix (py_rstrip t) t"
proof -
  have "suffix (dropWhile is_space (rev t)) (rev t)"
    by (rule suffix_dropWhile)
  then show ?thesis
    by (metis py_rstrip_def rev_rev_ident suffix_to_prefix)
qed

lemma py_rstrip_append:
  assumes "x \<in> set b" "\<not> is_space x"
  shows "py_rstrip (a @ b) = a @ py_rstrip b"
proof -
  have "dropWhile is_space (rev b @ rev a) = dropWhile is_space (rev b) @ rev a"
    using assms by (intro dropWhile_append1[of x]) auto
  then show ?thesis by (simp add: py_rstrip_def)
qed

lemma no_budget_line_append_nl:
  "filter is_budget_line (py_lines a) = [] \<Longrightarrow> filter is_budget_line (py_lines b) = []
   \<Longrightarrow> filter is_budget_line (py_lines (a @ 10 # b)) = []"
  by (simp add: py_lines_append_nl)

lemma no_budget_line_one:
  "10 \<notin> set l \<Longrightarrow> \<not> is_budget_line l \<Longrightarrow> filter is_budget_line (py_lines l) = []"
  by (simp add: py_lines_one)

lemma blocked_line:
  assumes "dropWhile is_space l = c # r" "c \<noteq> 66"
  shows "\<not> is_budget_line (l @ d)"
proof -
  have "c \<in> set l" "\<not> is_space c"
    using assms(1) by (metis list.set_intros(1) set_dropWhileD, metis hd_dropWhile list.distinct(1) list.sel(1))
  then have "dropWhile is_space (l @ d) = (c # r) @ d"
    using assms(1) dropWhile_append1 by metis
  with assms(2) show ?thesis
    by (simp add: is_budget_line_def)
qed

lemma sealed_base:
  "10 \<notin> set s \<Longrightarrow> dropWhile is_space s = c # r \<Longrightarrow> c \<noteq> 66 \<Longrightarrow> sealed s"
  by (simp add: sealed_def py_lines_one)

lemma sealed_dyn:
  assumes "sealed a" "10 \<notin> set d"
  shows "sealed (a @ d)"
proof -
  from assms(1) obtain c r where
    b: "filter is_budget_line (butlast (py_lines a)) = []" and
    l: "dropWhile is_space (last (py_lines a)) = c # r" "c \<noteq> 66"
    by (auto simp: sealed_def)
  have c: "c \<in> set (last (py_lines a))" "\<not> is_space c"
    using l(1) by (metis list.set_intros(1) set_dropWhileD, metis hd_dropWhile list.distinct(1) list.sel(1))
  have "py_lines (a @ d) = butlast (py_lines a) @ [last (py_lines a) @ d]"
    by (simp add: py_lines_append py_lines_one [OF assms(2)])
  moreover have "dropWhile is_space (last (py_lines a) @ d) = c # (r @ d)"
    using c l(1) dropWhile_append1 by (metis append_Cons)
  ultimately show ?thesis
    using b l(2) by (simp add: sealed_def)
qed

lemma sealed_no_budget_line:
  assumes "sealed a" "66 \<notin> set s"
  shows "filter is_budget_line (py_lines (a @ s)) = []"
proof -
  from assms(1) obtain c r where
    b: "filter is_budget_line (butlast (py_lines a)) = []" and
    l: "dropWhile is_space (last (py_lines a)) = c # r" "c \<noteq> 66"
    by (auto simp: sealed_def)
  have "filter is_budget_line (py_lines s) = []"
    by (rule no_B_no_budget_line [OF assms(2)])
  then have "filter is_budget_line (tl (py_lines s)) = []"
    by (cases "py_lines s") (auto split: if_splits)
  with b blocked_line [OF l] show ?thesis
    by (simp add: py_lines_append)
qed

lemma sealed_static:
  assumes "sealed a" "66 \<notin> set s1" "10 \<notin> set s2" "dropWhile is_space s2 = c # r" "c \<noteq> 66"
  shows "sealed (a @ s1 @ 10 # s2)"
proof -
  have "py_lines (a @ s1 @ 10 # s2) = py_lines (a @ s1) @ [s2]"
    using py_lines_append_nl [of "a @ s1" s2] py_lines_one [OF assms(3)] by simp
  with sealed_no_budget_line [OF assms(1,2)] assms(4,5) show ?thesis
    by (simp add: sealed_def)
qed

lemma replace_char_no_nl: "10 \<notin> set new \<Longrightarrow> 10 \<notin> set s \<Longrightarrow> 10 \<notin> set (replace_char old new s)"
  by (induction s) (auto simp: replace_char_def)

lemma knowledge_no_B:
  assumes "get_industry_knowledge v = Inr ik"
  shows "66 \<notin> set ik"
proof -
  have b: "66 \<notin> set knowledge_real_estate" "66 \<notin> set knowledge_insurance"
    "66 \<notin> set knowledge_financial_services" "66 \<notin> set knowledge_healthcare"
    "66 \<notin> set knowledge_default"
    by (simp_all add: knowledge_real_estate_def knowledge_insurance_def
        knowledge_financial_services_def knowledge_healthcare_def knowledge_default_def)
  have "ik \<in> {knowledge_real_estate, knowledge_insurance, knowledge_financial_services,
               knowledge_healthcare, knowledge_default}"
    using assms by (cases v) (auto simp: knowledge_map_def split: if_splits)
  with b show ?thesis by auto
qed

subsection \<open>Budget lines of the prompt\<close>

lemma spec_map_Cons:
  "map snd (filter (\<lambda>(v, line). truthy v) ((v, l) # xs))
     = (if truthy v then [l] else []) @ map snd (filter (\<lambda>(v, line). truthy v) xs)"
  by simp

lemma spec_filter_Cons:
  "filter P (map snd (filter (\<lambda>(v, line). truthy v) ((v, l) # xs)))
     = (if truthy v \<and> P l then [l] else [])
       @ filter P (map snd (filter (\<lambda>(v, line). truthy v) xs))"
  by simp

lemma user_info_parts_spec:
  assumes "user_info_parts L u = Inr ps"
  shows "ps = user_lines_spec L u"
  unfolding user_info_parts_shape [OF assms] user_lines_spec_def spec_map_Cons by simp

lemma user_budget_lines:
  "filter is_budget_line (user_lines_spec L u) =
     (if truthy (budget u) then [S ''Budget: '' @ py_str L (budget u)] else [])"
  unfolding user_lines_spec_def spec_filter_Cons
  by (simp add: is_budget_line_def is_space_def)

lemma company_budget_lines: "filter is_budget_line (company_lines_spec L c) = []"
  unfolding company_lines_spec_def spec_filter_Cons
  by (simp add: is_budget_line_def is_space_def)

lemma lstrip_budget_entry: "dropWhile is_space (S ''Budget: '' @ x) = S ''Budget: '' @ x"
  by (simp add: is_space_def)

lemma lines_indented_block:
  assumes "\<forall>l\<in>set ls. 10 \<notin> set l" "\<forall>x\<in>set ws. is_space x" "10 \<notin> set ws"
  shows "map (dropWhile is_space) (filter is_budget_line (py_lines (ws @ join_str [10] ls)))
       = map (dropWhile is_space) (filter is_budget_line ls)"
proof (cases ls)
  case Nil
  have dw: "dropWhile is_space ws = []"
    using assms(2) by simp
  have "\<not> is_budget_line ws"
    unfolding is_budget_line_def dw by simp
  with Nil assms(3) show ?thesis
    by (simp add: py_lines_one)
next
  case (Cons e es)
  then have "py_lines (join_str [10] ls) = e # es"
    using py_lines_join [of ls] assms(1) by simp
  then have "py_lines (ws @ join_str [10] ls) = (ws @ e) # es"
    using py_lines_append_one [OF assms(3)] by simp
  moreover have "is_budget_line (ws @ e) = is_budget_line e"
    by (rule budget_line_indent [OF assms(2)])
  moreover have "dropWhile is_space (ws @ e) = dropWhile is_space e"
    using assms(2) by simp
  ultimately show ?thesis
    using Cons by simp
qed

lemma py_strip_rstrip: "py_strip s = py_rstrip (dropWhile is_space s)"
  by (simp add: py_strip_def py_rstrip_def)

lemma tpl_4_split:
  "tpl_4 = S ''. Your interface with the user is by Telephony (voice call).''
             @ 10 # 10 # S ''            ''"
  by (simp add: tpl_4_def)

lemma tpl_5_split: "tpl_5 = 10 # 10 # S ''            ''"
  by (simp add: tpl_5_def)

lemma tpl_6_split: "tpl_6 = 10 # 10 # S ''            Call Purpose: ''"
  by (simp add: tpl_6_def)

lemma tpl_7_split:
  "tpl_7 = (10 # 10 # S ''            Personality & Communication Style:'')
             @ 10 # S ''            - You are ''"
  by (simp add: tpl_7_def)

lemma tpl_8_split: "tpl_8 = [] @ 10 # S ''            - ''"
  by (simp add: tpl_8_def)

lemma tpl_10_split:
  "tpl_10 = [10] @ 10 # S ''            Your goal is to engage with the client about their ''"
  by (simp add: tpl_10_def)

lemma tpl_12_split: "tpl_12 = 10 # S ''        ''"
  by (simp add: tpl_12_def)

lemma no_B_tpl_11: "66 \<notin> set tpl_11"
  by (simp add: tpl_11_def)

lemma no_nl_tpl_1_3: "10 \<notin> set tpl_1" "10 \<notin> set tpl_2" "10 \<notin> set tpl_3"
  by (simp_all add: tpl_1_def tpl_2_def tpl_3_def)

lemma nonempty_hd: "xs \<noteq> [] \<Longrightarrow> xs = hd xs # tl xs"
  by simp

lemma sealed_base':
  "10 \<notin> set s \<Longrightarrow> dropWhile is_space s \<noteq> [] \<Longrightarrow> hd (dropWhile is_space s) \<noteq> 66 \<Longrightarrow> sealed s"
  using sealed_base [of s "hd (dropWhile is_space s)" "tl (dropWhile is_space s)"] by simp

lemma sealed_static':
  "sealed a \<Longrightarrow> 66 \<notin> set s1 \<Longrightarrow> 10 \<notin> set s2 \<Longrightarrow> dropWhile is_space s2 \<noteq> []
   \<Longrightarrow> hd (dropWhile is_space s2) \<noteq> 66 \<Longrightarrow> sealed (a @ s1 @ 10 # s2)"
  using sealed_static [of a s1 s2 "hd (dropWhile is_space s2)" "tl (dropWhile is_space s2)"] by simp

lemma no_B_tpl_7_9: "66 \<notin> set tpl_7" "66 \<notin> set tpl_8" "66 \<notin> set tpl_9" "66 \<notin> set tpl_10"
  using no_B_10 by simp_all

lemma tail_no_budget_line:
  assumes pu: "10 \<notin> set pu" and cs: "10 \<notin> set cs" and rps: "10 \<notin> set rps"
    and i: "10 \<notin> set i" and cu: "10 \<notin> set cu" "\<not> is_budget_line cu" and ik: "66 \<notin> set ik"
  shows "filter is_budget_line (py_lines
           (S ''            Call Purpose: '' @ pu @ tpl_7 @ cs @ tpl_8 @ rps @ tpl_9 @ ik
             @ tpl_10 @ i @ tpl_11 @ cu @ tpl_12)) = []"
proof -
  define body11 where "body11 = take 1262 tpl_11 @ [46, 10]"
  have t11: "tpl_11 = body11 @ 10 # S ''            ''"
    using tpl_11_split by (simp add: body11_def)
  have b11: "66 \<notin> set body11"
    using no_B_tpl_11 unfolding body11_def by (auto dest: in_set_takeD)
  have s0: "sealed (S ''            Call Purpose: '')"
    by (rule sealed_base') (simp_all add: is_space_def)
  have s1: "sealed (S ''            Call Purpose: '' @ pu)"
    by (rule sealed_dyn [OF s0 pu])
  have "sealed ((S ''            Call Purpose: '' @ pu)
          @ (10 # 10 # S ''            Personality & Communication Style:'')
          @ 10 # S ''            - You are '')"
    by (rule sealed_static' [OF s1]) (simp_all add: is_space_def)
  then have s2: "sealed (S ''            Call Purpose: '' @ pu @ tpl_7)"
    by (simp add: tpl_7_split)
  have s3: "sealed ((S ''            Call Purpose: '' @ pu @ tpl_7) @ cs)"
    by (rule sealed_dyn [OF s2 cs])
  have "sealed (((S ''            Call Purpose: '' @ pu @ tpl_7) @ cs) @ [] @ 10 # S ''            - '')"
    by (rule sealed_static' [OF s3]) (simp_all add: is_space_def)
  then have s4: "sealed (S ''            Call Purpose: '' @ pu @ tpl_7 @ cs @ tpl_8)"
    by (simp add: tpl_8_split)
  have s5: "sealed ((S ''            Call Purpose: '' @ pu @ tpl_7 @ cs @ tpl_8) @ rps)"
    by (rule sealed_dyn [OF s4 rps])
  have "66 \<notin> set (tpl_9 @ ik @ [10])"
    using no_B_tpl_7_9 ik by simp
  then have "sealed (((S ''            Call Purpose: '' @ pu @ tpl_7 @ cs @ tpl_8) @ rps)
          @ (tpl_9 @ ik @ [10])
          @ 10 # S ''            Your goal is to engage with the client about their '')"
    by (rule sealed_static' [OF s5]) (simp_all add: is_space_def)
  then have s6: "sealed (S ''            Call Purpose: '' @ pu @ tpl_7 @ cs @ tpl_8 @ rps
          @ tpl_9 @ ik @ tpl_10)"
    by (simp add: tpl_10_split)
  have s7: "sealed ((S ''            Call Purpose: '' @ pu @ tpl_7 @ cs @ tpl_8 @ rps
          @ tpl_9 @ ik @ tpl_10) @ i)"
    by (rule sealed_dyn [OF s6 i])
  have n8: "filter is_budget_line (py_lines (((S ''            Call Purpose: '' @ pu @ tpl_7 @ cs
          @ tpl_8 @ rps @ tpl_9 @ ik @ tpl_10) @ i) @ body11)) = []"
    by (rule sealed_no_budget_line [OF s7 b11])
  have "\<not> is_budget_line (S ''            '' @ cu)"
    using cu(2) budget_line_indent [of "S ''            ''" cu] by (simp add: is_space_def)
  then have n9: "filter is_budget_line (py_lines (S ''            '' @ cu)) = []"
    using cu(1) by (intro no_budget_line_one) simp_all
  have n10: "filter is_budget_line (py_lines (S ''        '')) = []"
    by (rule no_budget_line_one) (simp_all add: is_budget_line_def is_space_def)
  have "filter is_budget_line (py_lines
          ((((S ''            Call Purpose: '' @ pu @ tpl_7 @ cs
          @ tpl_8 @ rps @ tpl_9 @ ik @ tpl_10) @ i) @ body11)
           @ 10 # ((S ''            '' @ cu) @ 10 # S ''        ''))) = []"
    by (intro no_budget_line_append_nl n8 n9 n10)
  then show ?thesis
    by (simp add: t11 tpl_12_split)
qed

lemma budget_lines_of_prompt:
  assumes bp: "build_prompt L c = Inr p" and ol: "one_line_texts L c"
  shows "map (dropWhile is_space) (filter is_budget_line (py_lines p)) =
     (if truthy (budget (user_context c))
      then [S ''Budget: '' @ py_str L (budget (user_context c))] else [])"
proof -
  define n where "n = py_str L (agent_name c)"
  define i where "i = py_str L (industry c)"
  define cn where "cn = py_str L (CompanyDetails.name (company_details c))"
  define pu where "pu = py_str L (purpose (call_context c))"
  define cs where "cs = py_str L (communication_style (agent_personality c))"
  define cu where "cu = py_str L (py_or (custom_instructions c) (PStr []))"
  define cl where "cl = company_lines_spec L (company_details c)"
  define ul where "ul = user_lines_spec L (user_context c)"
  from bp obtain ps ci ui ik where
    ps: "(if truthy (traits (agent_personality c))
          then py_join (S '', '') (traits (agent_personality c))
          else Inr (S ''professional, friendly, and consultative'')) = Inr ps" and
    ci: "format_company_info L (Some (company_details c)) = Inr ci" and
    ui: "format_user_info L (Some (user_context c)) = Inr ui" and
    ik: "get_industry_knowledge (industry c) = Inr ik" and
    p: "Inr (py_strip
        (tpl_0 @ py_str L (agent_name c)
         @ tpl_1 @ ps
         @ tpl_2 @ py_str L (industry c)
         @ tpl_3 @ py_str L (CompanyDetails.name (company_details c))
         @ tpl_4 @ ci
         @ tpl_5 @ ui
         @ tpl_6 @ py_str L (purpose (call_context c))
         @ tpl_7 @ py_str L (communication_style (agent_personality c))
         @ tpl_8 @ replace_char 44 (S '' and'') ps
         @ tpl_9 @ ik
         @ tpl_10 @ py_str L (industry c)
         @ tpl_11 @ py_str L (py_or (custom_instructions c) (PStr []))
         @ tpl_12)) = (Inr p :: pyerr + pystr)"
    unfolding build_prompt_def Let_def bind_err_Inr_iff by blast
  have ps': "ps = personality_text c"
    using ps by (auto simp: personality_text_def joined_def split: if_splits)
  have ci': "ci = join_str [10] cl"
    unfolding cl_def by (rule format_company_info_spec [OF ci])
  obtain up where "user_info_parts L (user_context c) = Inr up" "ui = join_str [10] up"
    using format_user_info_parts [OF ui] by blast
  then have ui': "ui = join_str [10] ul"
    unfolding ul_def using user_info_parts_spec by blast
  from ol have nl: "10 \<notin> set n" "10 \<notin> set ps" "10 \<notin> set i" "10 \<notin> set cn" "10 \<notin> set pu"
    "10 \<notin> set cs" "10 \<notin> set cu" "\<forall>l\<in>set cl. 10 \<notin> set l" "\<forall>l\<in>set ul. 10 \<notin> set l"
    and nb: "\<not> is_budget_line cu"
    unfolding one_line_texts_def interpolated_texts_def n_def ps' i_def cn_def pu_def cs_def
      cu_def cl_def ul_def
    by simp_all
  have rps: "10 \<notin> set (replace_char 44 (S '' and'') ps)"
    by (rule replace_char_no_nl) (use nl(2) in simp_all)
  let ?T = "S ''            Call Purpose: '' @ pu @ tpl_7 @ cs @ tpl_8
             @ replace_char 44 (S '' and'') ps @ tpl_9 @ ik @ tpl_10 @ i @ tpl_11 @ cu @ tpl_12"
  let ?L1 = "S ''You are '' @ n @ tpl_1 @ ps @ tpl_2 @ i @ tpl_3 @ cn
             @ S ''. Your interface with the user is by Telephony (voice call).''"
  let ?A = "?L1 @ 10 # 10 # (S ''            '' @ ci) @ 10 # 10 # (S ''            '' @ ui) @ [10, 10]"
  have tail: "filter is_budget_line (py_lines ?T) = []"
    by (rule tail_no_budget_line [OF nl(5) nl(6) rps nl(3) nl(7) nb knowledge_no_B [OF ik]])
  then have rtail: "filter is_budget_line (py_lines (py_rstrip ?T)) = []"
    by (rule no_budget_line_prefix [OF py_rstrip_prefix])
  from p have "p = py_rstrip (dropWhile is_space
        (tpl_0 @ n @ tpl_1 @ ps @ tpl_2 @ i @ tpl_3 @ cn @ tpl_4 @ ci @ tpl_5 @ ui
         @ tpl_6 @ pu @ tpl_7 @ cs @ tpl_8 @ replace_char 44 (S '' and'') ps
         @ tpl_9 @ ik @ tpl_10 @ i @ tpl_11 @ cu @ tpl_12))"
    unfolding n_def i_def cn_def pu_def cs_def cu_def py_strip_rstrip by (simp only: sum.inject)
  then have "p = py_rstrip (?A @ ?T)"
    unfolding lstrip_tpl_0 by (simp add: tpl_4_split tpl_5_split tpl_6_split)
  moreover have "67 \<in> set ?T" "\<not> is_space 67"
    by (simp_all add: is_space_def)
  ultimately have "p = ?A @ py_rstrip ?T"
    using py_rstrip_append [of 67 ?T ?A] by simp
  then have "p = ?L1 @ 10 # ([] @ 10 # ((S ''            '' @ ci) @ 10 # ([] @ 10
                  # ((S ''            '' @ ui) @ 10 # ([] @ 10 # py_rstrip ?T)))))"
    by simp
  then have lines: "py_lines p = py_lines ?L1 @ [[]] @ py_lines (S ''            '' @ ci) @ [[]]
                @ py_lines (S ''            '' @ ui) @ [[]] @ py_lines (py_rstrip ?T)"
    by (simp only: py_lines_append_nl py_lines.simps)
  have "10 \<notin> set ?L1"
    using nl no_nl_tpl_1_3 by simp
  moreover have "\<not> is_budget_line ?L1"
    by (rule blocked_line [where c = 89]) (simp_all add: is_space_def)
  ultimately have l1: "filter is_budget_line (py_lines ?L1) = []"
    by (rule no_budget_line_one)
  have e: "\<not> is_budget_line []"
    by (simp add: is_budget_line_def)
  have cb: "map (dropWhile is_space) (filter is_budget_line (py_lines (S ''            '' @ ci))) = []"
    unfolding ci' using lines_indented_block [OF nl(8), of "S ''            ''"]
    by (simp add: is_space_def company_budget_lines cl_def)
  have ub: "map (dropWhile is_space) (filter is_budget_line (py_lines (S ''            '' @ ui)))
        = map (dropWhile is_space) (filter is_budget_line ul)"
    unfolding ui' using lines_indented_block [OF nl(9), of "S ''            ''"]
    by (simp add: is_space_def)
  have "map (dropWhile is_space) (filter is_budget_line ul) =
     (if truthy (budget (user_context c))
      then [S ''Budget: '' @ py_str L (budget (user_context c))] else [])"
    unfolding ul_def user_budget_lines using lstrip_budget_entry by simp
  with lines l1 e cb ub rtail show ?thesis
    by simp
qed

lemma notes_struct:
  "build_prompt L notes_config = Inr (py_strip
     (tpl_0 @ S ''Ana'' @ tpl_1 @ S ''x, y'' @ tpl_2 @ S ''insurance'' @ tpl_3 @ S ''Acme''
      @ tpl_4 @ S ''Company Specialties: a, b'' @ tpl_5
      @ (S ''Client Name: Bob'' @ 10 # S ''Additional Notes: see below'' @ 10 # S ''Budget: 5'')
      @ tpl_6 @ S ''intro call'' @ tpl_7 @ S ''calm'' @ tpl_8 @ S ''x and y''
      @ tpl_9 @ knowledge_insurance @ tpl_10 @ S ''insurance'' @ tpl_11 @ tpl_12))"
  by (simp add: build_prompt_def notes_config_def AgentConfig_init_def CompanyDetails_init_def
     AgentPersonality_init_def CallContext_init_def UserContext_init_def py_or_def bind_err_def
     company_info_parts_def user_info_parts_def knowledge_map_def replace_char_def Let_def
     append_if_def append_joined_if_def)

lemma scenario_head_length:
  "length (S ''You are Ana'' @ tpl_1 @ S ''x, y'' @ tpl_2 @ S ''insurance'' @ tpl_3 @ S ''Acme''
      @ tpl_4 @ S ''Company Specialties: a, b'' @ tpl_5 @ S ''Client Name: Bob'') = 189"
  by (simp add: tpl_1_def tpl_2_def tpl_3_def tpl_4_def tpl_5_def)

lemma notes_prompt_struct:
  "notes_prompt =
     (S ''You are Ana'' @ tpl_1 @ S ''x, y'' @ tpl_2 @ S ''insurance'' @ tpl_3 @ S ''Acme''
      @ tpl_4 @ S ''Company Specialties: a, b'' @ tpl_5 @ S ''Client Name: Bob'')
     @ 10 # S ''Additional Notes: see below'' @ 10 # S ''Budget: 5''
     @ (tpl_6 @ S ''intro call'' @ tpl_7 @ S ''calm'' @ tpl_8 @ S ''x and y''
        @ tpl_9 @ knowledge_insurance @ tpl_10 @ S ''insurance'' @ take 1263 tpl_11)"
proof -
  define h where "h = S ''You are Ana'' @ tpl_1 @ S ''x, y'' @ tpl_2 @ S ''insurance'' @ tpl_3
      @ S ''Acme'' @ tpl_4 @ S ''Company Specialties: a, b'' @ tpl_5 @ S ''Client Name: Bob''"
  define t where "t = tpl_6 @ S ''intro call'' @ tpl_7 @ S ''calm'' @ tpl_8 @ S ''x and y''
        @ tpl_9 @ knowledge_insurance @ tpl_10 @ S ''insurance'' @ take 1263 tpl_11"
  have len: "length h = 189"
    unfolding h_def by (rule scenario_head_length)
  have s: "scenario_prompt = h @ t"
    unfolding scenario_flat [symmetric] h_def t_def by simp
  have "notes_prompt = h @ 10 # S ''Additional Notes: see below'' @ 10 # S ''Budget: 5'' @ t"
    unfolding notes_prompt_def s using len by simp
  then show ?thesis
    unfolding h_def t_def .
qed

lemma notes_eval: "build_prompt L notes_config = Inr notes_prompt"
proof -
  let ?mid = "S ''ou are '' @ S ''Ana'' @ tpl_1 @ S ''x, y'' @ tpl_2 @ S ''insurance'' @ tpl_3 @ S ''Acme''
      @ tpl_4 @ S ''Company Specialties: a, b'' @ tpl_5
      @ (S ''Client Name: Bob'' @ 10 # S ''Additional Notes: see below'' @ 10 # S ''Budget: 5'')
      @ tpl_6 @ S ''intro call'' @ tpl_7 @ S ''calm'' @ tpl_8 @ S ''x and y''
      @ tpl_9 @ knowledge_insurance @ tpl_10 @ S ''insurance'' @ take 1262 tpl_11"
  have "tpl_0 @ S ''Ana'' @ tpl_1 @ S ''x, y'' @ tpl_2 @ S ''insurance'' @ tpl_3 @ S ''Acme''
      @ tpl_4 @ S ''Company Specialties: a, b'' @ tpl_5
      @ (S ''Client Name: Bob'' @ 10 # S ''Additional Notes: see below'' @ 10 # S ''Budget: 5'')
      @ tpl_6 @ S ''intro call'' @ tpl_7 @ S ''calm'' @ tpl_8 @ S ''x and y''
      @ tpl_9 @ knowledge_insurance @ tpl_10 @ S ''insurance'' @ tpl_11 @ tpl_12
     = (10 # S ''            '') @ 89 # ?mid @ 46 # (10 # 10 # S ''            '' @ tpl_12)"
    by (subst tpl_11_split, subst tpl_0_split) simp
  moreover have "py_strip ((10 # S ''            '') @ 89 # ?mid @ 46 # (10 # 10 # S ''            '' @ tpl_12))
     = 89 # ?mid @ [46]"
    by (rule py_strip_core) (simp_all add: is_space_def tpl_12_def)
  moreover have "89 # ?mid @ [46] = notes_prompt"
    unfolding notes_prompt_struct take_tpl_11 by simp
  ultimately show ?thesis
    by (simp only: notes_struct)
qed

lemma notes_prompt_budget_line:
  "S ''Budget: 5'' \<in> set (filter is_budget_line (py_lines notes_prompt))"
proof -
  let ?h = "(S ''You are Ana'' @ tpl_1 @ S ''x, y'' @ tpl_2 @ S ''insurance'' @ tpl_3 @ S ''Acme''
      @ tpl_4 @ S ''Company Specialties: a, b'' @ tpl_5 @ S ''Client Name: Bob'')
      @ 10 # S ''Additional Notes: see below''"
  let ?t = "10 # S ''            Call Purpose: '' @ S ''intro call'' @ tpl_7 @ S ''calm'' @ tpl_8
        @ S ''x and y'' @ tpl_9 @ knowledge_insurance @ tpl_10 @ S ''insurance'' @ take 1263 tpl_11"
  have eq: "notes_prompt = ?h @ 10 # (S ''Budget: 5'' @ 10 # ?t)"
    unfolding notes_prompt_struct by (simp add: tpl_6_split)
  have "py_lines notes_prompt = py_lines ?h @ py_lines (S ''Budget: 5'') @ py_lines ?t"
    unfolding eq by (simp only: py_lines_append_nl)
  moreover have "py_lines (S ''Budget: 5'') = [S ''Budget: 5'']"
    by (rule py_lines_one) simp
  moreover have "is_budget_line (S ''Budget: 5'')"
    by (simp add: is_budget_line_def is_space_def)
  ultimately show ?thesis
    by simp
qed

text \<open>
  Claim C8 as stated fails: the renderer copies field text as it is, so a configuration
  with no budget whose notes are "see below", line feed, "Budget: 5" gets a prompt with the
  line \<open>Budget: 5\<close>.
\<close>

theorem notes_inject_budget_line_counterexample:
  "budget (user_context notes_config) = PNone
   \<and> build_prompt no_render notes_config = Inr notes_prompt
   \<and> S ''Budget: 5'' \<in> set (filter is_budget_line (py_lines notes_prompt))"
  using notes_eval notes_prompt_budget_line
  by (simp add: notes_config_def AgentConfig_init_def UserContext_init_def)

text \<open>
  Claim C8, amended (optional-field omission for budget).  Let \<open>build_prompt\<close> return a
  prompt for a configuration whose interpolated texts hold no line feed and whose custom
  instructions do not begin with \<open>Budget:\<close>.  If the user's budget is absent (\<open>None\<close>), no
  line of the prompt is a budget line.  If it is \<open>$1.5M\<close>, en dash, \<open>2M\<close>, exactly one line
  of the prompt is a budget line, and after its indentation it reads \<open>Budget: \<close> followed
  by that text.  In general the budget lines of the prompt are the single entry
  \<open>Budget: \<close> followed by the rendered budget when the budget is true, and none otherwise.
\<close>

theorem budget_line_rendering:
  assumes "build_prompt L c = Inr p" and "one_line_texts L c"
  shows "(budget (user_context c) = PNone \<longrightarrow> filter is_budget_line (py_lines p) = [])
     \<and> (budget (user_context c) = PStr (S ''$1.5M'' @ 8211 # S ''2M'') \<longrightarrow>
          map (dropWhile is_space) (filter is_budget_line (py_lines p))
            = [S ''Budget: $1.5M'' @ 8211 # S ''2M''])
     \<and> map (dropWhile is_space) (filter is_budget_line (py_lines p)) =
          (if truthy (budget (user_context c))
           then [S ''Budget: '' @ py_str L (budget (user_context c))] else [])"
  using budget_lines_of_prompt [OF assms] by auto

theorem budget_line_rendering_witness:
  "one_line_texts no_render budget_config
   \<and> budget (user_context budget_config) = PStr (S ''$1.5M'' @ 8211 # S ''2M'')
   \<and> (\<exists>p. build_prompt no_render budget_config = Inr p
        \<and> map (dropWhile is_space) (filter is_budget_line (py_lines p))
            = [S ''Budget: $1.5M'' @ 8211 # S ''2M''])
   \<and> one_line_texts no_render scenario_config
   \<and> budget (user_context scenario_config) = PNone
   \<and> build_prompt no_render scenario_config = Inr scenario_prompt
   \<and> filter is_budget_line (py_lines scenario_prompt) = []"
proof -
  obtain p where p: "build_prompt no_render budget_config = Inr p"
    by (simp add: build_prompt_def budget_config_def AgentConfig_init_def CompanyDetails_init_def
     AgentPersonality_init_def CallContext_init_def UserContext_init_def py_or_def bind_err_def
     company_info_parts_def user_info_parts_def knowledge_map_def Let_def
     append_if_def append_joined_if_def)
  have o1: "one_line_texts no_render budget_config"
    by (simp add: one_line_texts_def interpolated_texts_def personality_text_def joined_def
        company_lines_spec_def user_lines_spec_def budget_config_def AgentConfig_init_def
        CompanyDetails_init_def AgentPersonality_init_def CallContext_init_def
        UserContext_init_def py_or_def is_budget_line_def)
  have b1: "budget (user_context budget_config) = PStr (S ''$1.5M'' @ 8211 # S ''2M'')"
    by (simp add: budget_config_def AgentConfig_init_def UserContext_init_def)
  have o2: "one_line_texts no_render scenario_config"
    by (simp add: one_line_texts_def interpolated_texts_def personality_text_def joined_def
        company_lines_spec_def user_lines_spec_def scenario_config_def AgentConfig_init_def
        CompanyDetails_init_def AgentPersonality_init_def CallContext_init_def
        UserContext_init_def py_or_def is_budget_line_def)
  have b2: "budget (user_context scenario_config) = PNone"
    by (simp add: scenario_config_def AgentConfig_init_def UserContext_init_def)
  note e = scenario_eval [of no_render]
  from budget_line_rendering [OF p o1] b1
  have r1: "map (dropWhile is_space) (filter is_budget_line (py_lines p))
            = [S ''Budget: $1.5M'' @ 8211 # S ''2M'']"
    by blast
  from budget_line_rendering [OF e o2] b2
  have r2: "filter is_budget_line (py_lines scenario_prompt) = []"
    by blast
  from p r1 have "\<exists>p. build_prompt no_render budget_config = Inr p
        \<and> map (dropWhile is_space) (filter is_budget_line (py_lines p))
            = [S ''Budget: $1.5M'' @ 8211 # S ''2M'']"
    by (intro exI [of _ p] conjI)
  with o1 b1 o2 b2 e r2 show ?thesis
    by (intro conjI)
qed

end
